theory Spec2Isabelle
  imports Main "HOL-Library.Word" "HOL-Library.Signed_Division"
begin

unbundle bit_operations_syntax

section \<open>Data model (risbee.go)\<close>

text \<open>
  Go's fixed-width integers are words: \<open>+\<close>, \<open>-\<close> and \<open>*\<close> wrap, \<open>unat\<close> reads a word as
  unsigned, \<open>sint\<close> as two's complement.  An \<open>int64\<close> and a \<open>uint64\<close> are the same 64 bits, so
  the conversions \<open>int64(x)\<close> and \<open>uint64(x)\<close> between them are the identity; \<open>ucast\<close> is a
  conversion from an unsigned type (zero extension or truncation), \<open>scast\<close> from a signed
  one (sign extension).  Go's \<open>int\<close> (the exit code) is read as a mathematical integer,
  obtained from a register by \<open>sint\<close> (64-bit platforms).
\<close>

type_synonym byte = "8 word"
type_synonym uint16 = "16 word"
type_synonym uint32 = "32 word"
type_synonym uint64 = "64 word"

abbreviation RISBEE_STACK_SIZE :: nat where "RISBEE_STACK_SIZE \<equiv> 65536"

text \<open>
  The struct \<open>RisbeeVm\<close>.  The two arrays \<open>[65536]byte\<close> and \<open>[32]uint64\<close> are functions on
  indices; every access whose index can leave the array checks the bound as the Go runtime
  does.  The fields the interpreter mutates form the record \<open>RisbeeVm\<close>; the function-valued
  fields, which the interpreter only reads (\<open>SysCalls\<close>, \<open>ExitCallback\<close>, \<open>PanicCallback\<close>),
  form the record \<open>RisbeeHost\<close> (a handler takes the VM, so the table cannot be a field of
  the record it acts on).  A \<open>nil\<close> callback is \<open>None\<close>.  What a callback does is an effect
  on the embedder's own state \<open>Host\<close>, of an arbitrary type \<open>'h\<close>; a syscall handler is
  handed the VM and may change all of it.
\<close>

record 'h RisbeeVm =
  Memory :: "nat \<Rightarrow> byte"
  Registers :: "nat \<Rightarrow> uint64"
  Pc :: uint64
  ExitCode :: int
  Running :: bool
  Host :: 'h

type_synonym 'h RisbeeVmSyscallFn = "'h RisbeeVm \<Rightarrow> uint64 \<times> 'h RisbeeVm"

record 'h RisbeeHost =
  SysCalls :: "uint64 \<Rightarrow> 'h RisbeeVmSyscallFn option"
  ExitCallback :: "(uint64 \<Rightarrow> 'h \<Rightarrow> 'h) option"
  PanicCallback :: "(string \<Rightarrow> 'h \<Rightarrow> 'h) option"

text \<open>A run-time panic of Go itself (not \<open>vm.panic\<close>): the call does not return a state.\<close>

datatype go_panic = IndexOutOfRange | SliceBoundsOutOfRange

section \<open>Instruction constants (instructions.go)\<close>

abbreviation RISBEE_OPINST_LOAD :: uint32 where "RISBEE_OPINST_LOAD \<equiv> 3"
abbreviation RISBEE_OPINST_STORE :: uint32 where "RISBEE_OPINST_STORE \<equiv> 35"
abbreviation RISBEE_OPINST_IMM :: uint32 where "RISBEE_OPINST_IMM \<equiv> 19"
abbreviation RISBEE_OPINST_IALU :: uint32 where "RISBEE_OPINST_IALU \<equiv> 27"
abbreviation RISBEE_OPINST_RT64 :: uint32 where "RISBEE_OPINST_RT64 \<equiv> 51"
abbreviation RISBEE_OPINST_RT32 :: uint32 where "RISBEE_OPINST_RT32 \<equiv> 59"
abbreviation RISBEE_OPINST_LUI :: uint32 where "RISBEE_OPINST_LUI \<equiv> 55"
abbreviation RISBEE_OPINST_AUIPC :: uint32 where "RISBEE_OPINST_AUIPC \<equiv> 23"
abbreviation RISBEE_OPINST_JAL :: uint32 where "RISBEE_OPINST_JAL \<equiv> 111"
abbreviation RISBEE_OPINST_JALR :: uint32 where "RISBEE_OPINST_JALR \<equiv> 103"
abbreviation RISBEE_OPINST_BRANCH :: uint32 where "RISBEE_OPINST_BRANCH \<equiv> 99"
abbreviation RISBEE_OPINST_FENCE :: uint32 where "RISBEE_OPINST_FENCE \<equiv> 15"
abbreviation RISBEE_OPINST_CALL :: uint32 where "RISBEE_OPINST_CALL \<equiv> 115"

abbreviation RISBEE_FC3_LB :: uint32 where "RISBEE_FC3_LB \<equiv> 0"
abbreviation RISBEE_FC3_LHW :: uint32 where "RISBEE_FC3_LHW \<equiv> 1"
abbreviation RISBEE_FC3_LW :: uint32 where "RISBEE_FC3_LW \<equiv> 2"
abbreviation RISBEE_FC3_LDW :: uint32 where "RISBEE_FC3_LDW \<equiv> 3"
abbreviation RISBEE_FC3_LBU :: uint32 where "RISBEE_FC3_LBU \<equiv> 4"
abbreviation RISBEE_FC3_LHU :: uint32 where "RISBEE_FC3_LHU \<equiv> 5"
abbreviation RISBEE_FC3_LRES :: uint32 where "RISBEE_FC3_LRES \<equiv> 6"

abbreviation RISBEE_FC3_SB :: uint32 where "RISBEE_FC3_SB \<equiv> 0"
abbreviation RISBEE_FC3_SHW :: uint32 where "RISBEE_FC3_SHW \<equiv> 1"
abbreviation RISBEE_FC3_SW :: uint32 where "RISBEE_FC3_SW \<equiv> 2"
abbreviation RISBEE_FC3_SDW :: uint32 where "RISBEE_FC3_SDW \<equiv> 3"

abbreviation RISBEE_FC3_ADDI :: uint32 where "RISBEE_FC3_ADDI \<equiv> 0"
abbreviation RISBEE_FC3_SLLI :: uint32 where "RISBEE_FC3_SLLI \<equiv> 1"
abbreviation RISBEE_FC3_SLTI :: uint32 where "RISBEE_FC3_SLTI \<equiv> 2"
abbreviation RISBEE_FC3_SLTIU :: uint32 where "RISBEE_FC3_SLTIU \<equiv> 3"
abbreviation RISBEE_FC3_XORI :: uint32 where "RISBEE_FC3_XORI \<equiv> 4"
abbreviation RISBEE_FC3_SRLI :: uint32 where "RISBEE_FC3_SRLI \<equiv> 5"
abbreviation RISBEE_FC3_ORI :: uint32 where "RISBEE_FC3_ORI \<equiv> 6"
abbreviation RISBEE_FC3_ANDI :: uint32 where "RISBEE_FC3_ANDI \<equiv> 7"

abbreviation RISBEE_FC3_SLLIW :: uint32 where "RISBEE_FC3_SLLIW \<equiv> 0"
abbreviation RISBEE_FC3_SRLIW :: uint32 where "RISBEE_FC3_SRLIW \<equiv> 1"
abbreviation RISBEE_FC3_SRAIW :: uint32 where "RISBEE_FC3_SRAIW \<equiv> 5"
abbreviation RISBEE_FC3_SLLI64 :: uint32 where "RISBEE_FC3_SLLI64 \<equiv> 6"
abbreviation RISBEE_FC3_SRLI64 :: uint32 where "RISBEE_FC3_SRLI64 \<equiv> 7"
abbreviation RISBEE_FC3_SRAI64 :: uint32 where "RISBEE_FC3_SRAI64 \<equiv> 8"

abbreviation RISBEE_FC3_BEQ :: uint32 where "RISBEE_FC3_BEQ \<equiv> 0"
abbreviation RISBEE_FC3_BNE :: uint32 where "RISBEE_FC3_BNE \<equiv> 1"
abbreviation RISBEE_FC3_BLT :: uint32 where "RISBEE_FC3_BLT \<equiv> 4"
abbreviation RISBEE_FC3_BGE :: uint32 where "RISBEE_FC3_BGE \<equiv> 5"
abbreviation RISBEE_FC3_BLTU :: uint32 where "RISBEE_FC3_BLTU \<equiv> 6"
abbreviation RISBEE_FC3_BGEU :: uint32 where "RISBEE_FC3_BGEU \<equiv> 7"

abbreviation RISBEE_OPINST_RT32_ADDW :: uint32 where "RISBEE_OPINST_RT32_ADDW \<equiv> 0x0"
abbreviation RISBEE_OPINST_RT32_SUBW :: uint32 where "RISBEE_OPINST_RT32_SUBW \<equiv> 0x100"
abbreviation RISBEE_OPINST_RT32_SLLW :: uint32 where "RISBEE_OPINST_RT32_SLLW \<equiv> 0x1"
abbreviation RISBEE_OPINST_RT32_SRLW :: uint32 where "RISBEE_OPINST_RT32_SRLW \<equiv> 0x5"
abbreviation RISBEE_OPINST_RT32_SRAW :: uint32 where "RISBEE_OPINST_RT32_SRAW \<equiv> 0x105"
abbreviation RISBEE_OPINST_RT32_MULW :: uint32 where "RISBEE_OPINST_RT32_MULW \<equiv> 0x8"
abbreviation RISBEE_OPINST_RT32_DIVW :: uint32 where "RISBEE_OPINST_RT32_DIVW \<equiv> 0xC"
abbreviation RISBEE_OPINST_RT32_DIVUW :: uint32 where "RISBEE_OPINST_RT32_DIVUW \<equiv> 0xD"
abbreviation RISBEE_OPINST_RT32_REMW :: uint32 where "RISBEE_OPINST_RT32_REMW \<equiv> 0xE"
abbreviation RISBEE_OPINST_RT32_REMUW :: uint32 where "RISBEE_OPINST_RT32_REMUW \<equiv> 0xF"

abbreviation RISBEE_OPINST_RT64_ADD :: uint32 where "RISBEE_OPINST_RT64_ADD \<equiv> 0x0"
abbreviation RISBEE_OPINST_RT64_SUB :: uint32 where "RISBEE_OPINST_RT64_SUB \<equiv> 0x100"
abbreviation RISBEE_OPINST_RT64_SLL :: uint32 where "RISBEE_OPINST_RT64_SLL \<equiv> 0x1"
abbreviation RISBEE_OPINST_RT64_SLT :: uint32 where "RISBEE_OPINST_RT64_SLT \<equiv> 0x2"
abbreviation RISBEE_OPINST_RT64_SLTU :: uint32 where "RISBEE_OPINST_RT64_SLTU \<equiv> 0x3"
abbreviation RISBEE_OPINST_RT64_XOR :: uint32 where "RISBEE_OPINST_RT64_XOR \<equiv> 0x4"
abbreviation RISBEE_OPINST_RT64_SRL :: uint32 where "RISBEE_OPINST_RT64_SRL \<equiv> 0x5"
abbreviation RISBEE_OPINST_RT64_SRA :: uint32 where "RISBEE_OPINST_RT64_SRA \<equiv> 0x105"
abbreviation RISBEE_OPINST_RT64_OR :: uint32 where "RISBEE_OPINST_RT64_OR \<equiv> 0x6"
abbreviation RISBEE_OPINST_RT64_AND :: uint32 where "RISBEE_OPINST_RT64_AND \<equiv> 0x7"
abbreviation RISBEE_OPINST_RT64_MUL :: uint32 where "RISBEE_OPINST_RT64_MUL \<equiv> 0x8"
abbreviation RISBEE_OPINST_RT64_MULH :: uint32 where "RISBEE_OPINST_RT64_MULH \<equiv> 0x9"
abbreviation RISBEE_OPINST_RT64_MULHSU :: uint32 where "RISBEE_OPINST_RT64_MULHSU \<equiv> 0xA"
abbreviation RISBEE_OPINST_RT64_MULHU :: uint32 where "RISBEE_OPINST_RT64_MULHU \<equiv> 0xB"
abbreviation RISBEE_OPINST_RT64_DIV :: uint32 where "RISBEE_OPINST_RT64_DIV \<equiv> 0xC"
abbreviation RISBEE_OPINST_RT64_DIVU :: uint32 where "RISBEE_OPINST_RT64_DIVU \<equiv> 0xD"
abbreviation RISBEE_OPINST_RT64_REM :: uint32 where "RISBEE_OPINST_RT64_REM \<equiv> 0xE"
abbreviation RISBEE_OPINST_RT64_REMU :: uint32 where "RISBEE_OPINST_RT64_REMU \<equiv> 0xF"

section \<open>Byte order helpers (bits.go)\<close>

text \<open>
  A slice of the arena is its pair of bounds \<open>(lo, hi)\<close>: it aliases the bytes
  \<open>lo ..< hi\<close> of \<open>vm.Memory\<close> and has length \<open>hi - lo\<close>.  Slicing panics in Go unless
  \<open>lo \<le> hi \<le> 65536\<close>; indexing panics unless the index is below 65536.
\<close>

type_synonym slice = "nat \<times> nat"

definition len :: "slice \<Rightarrow> nat" where
  "len b = snd b - fst b"

definition index_memory :: "(nat \<Rightarrow> byte) \<Rightarrow> uint64 \<Rightarrow> go_panic + byte" where
  "index_memory m addr =
     (if unat addr < RISBEE_STACK_SIZE then Inr (m (unat addr)) else Inl IndexOutOfRange)"

definition slice_from :: "uint64 \<Rightarrow> go_panic + slice" where
  "slice_from addr =
     (if unat addr \<le> RISBEE_STACK_SIZE then Inr (unat addr, RISBEE_STACK_SIZE)
      else Inl SliceBoundsOutOfRange)"

definition slice_range :: "uint64 \<Rightarrow> uint64 \<Rightarrow> go_panic + slice" where
  "slice_range lo hi =
     (if unat lo \<le> unat hi \<and> unat hi \<le> RISBEE_STACK_SIZE then Inr (unat lo, unat hi)
      else Inl SliceBoundsOutOfRange)"

definition uint16LittleEndian :: "(nat \<Rightarrow> byte) \<Rightarrow> slice \<Rightarrow> uint16" where
  "uint16LittleEndian m b =
     (if len b < 2 then 0
      else ucast (m (fst b)) OR push_bit 8 (ucast (m (fst b + 1))))"

definition uint32LittleEndian :: "(nat \<Rightarrow> byte) \<Rightarrow> slice \<Rightarrow> uint32" where
  "uint32LittleEndian m b =
     (if len b < 4 then 0
      else ucast (m (fst b)) OR push_bit 8 (ucast (m (fst b + 1)))
           OR push_bit 16 (ucast (m (fst b + 2))) OR push_bit 24 (ucast (m (fst b + 3))))"

definition uint64LittleEndian :: "(nat \<Rightarrow> byte) \<Rightarrow> slice \<Rightarrow> uint64" where
  "uint64LittleEndian m b =
     (if len b < 8 then 0
      else ucast (m (fst b)) OR push_bit 8 (ucast (m (fst b + 1)))
           OR push_bit 16 (ucast (m (fst b + 2))) OR push_bit 24 (ucast (m (fst b + 3)))
           OR push_bit 32 (ucast (m (fst b + 4))) OR push_bit 40 (ucast (m (fst b + 5)))
           OR push_bit 48 (ucast (m (fst b + 6))) OR push_bit 56 (ucast (m (fst b + 7))))"

definition putUint16 :: "(nat \<Rightarrow> byte) \<Rightarrow> slice \<Rightarrow> uint16 \<Rightarrow> nat \<Rightarrow> byte" where
  "putUint16 m b v =
     (if len b < 2 then m
      else m(fst b := ucast v, fst b + 1 := ucast (drop_bit 8 v)))"

definition putUint32 :: "(nat \<Rightarrow> byte) \<Rightarrow> slice \<Rightarrow> uint32 \<Rightarrow> nat \<Rightarrow> byte" where
  "putUint32 m b v =
     (if len b < 4 then m
      else m(fst b := ucast v, fst b + 1 := ucast (drop_bit 8 v),
             fst b + 2 := ucast (drop_bit 16 v), fst b + 3 := ucast (drop_bit 24 v)))"

definition putUint64 :: "(nat \<Rightarrow> byte) \<Rightarrow> slice \<Rightarrow> uint64 \<Rightarrow> nat \<Rightarrow> byte" where
  "putUint64 m b v =
     (if len b < 8 then m
      else m(fst b := ucast v, fst b + 1 := ucast (drop_bit 8 v),
             fst b + 2 := ucast (drop_bit 16 v), fst b + 3 := ucast (drop_bit 24 v),
             fst b + 4 := ucast (drop_bit 32 v), fst b + 5 := ucast (drop_bit 40 v),
             fst b + 6 := ucast (drop_bit 48 v), fst b + 7 := ucast (drop_bit 56 v)))"

section \<open>Shift helpers (shift.go)\<close>

text \<open>
  The arguments are \<open>int64\<close>: \<open>sint y\<close> is the signed shift count.  A Go shift by a count
  of at least the width gives 0 on an unsigned operand, which is what \<open>push_bit\<close> and
  \<open>drop_bit\<close> on a word give; \<open>x >> y\<close> on a signed operand is \<open>signed_drop_bit\<close>.
\<close>

definition shiftLeftInt64 :: "uint64 \<Rightarrow> uint64 \<Rightarrow> uint64" where
  "shiftLeftInt64 x y =
     (if 0 \<le> sint y \<and> sint y < 64 then push_bit (nat (sint y)) x
      else if sint y < 0 \<and> sint y > - 64 then drop_bit (nat (- sint y)) x
      else 0)"

definition shiftRightInt64 :: "uint64 \<Rightarrow> uint64 \<Rightarrow> uint64" where
  "shiftRightInt64 x y =
     (if 0 \<le> sint y \<and> sint y < 64 then drop_bit (nat (sint y)) x
      else if sint y < 0 \<and> sint y > - 64 then push_bit (nat (- sint y)) x
      else 0)"

definition shiftRightInt128 :: "uint64 \<Rightarrow> uint64 \<Rightarrow> uint64" where
  "shiftRightInt128 x y =
     (if 0 \<le> sint y \<and> sint y < 128 then drop_bit (nat (sint y)) x
      else if sint y < 0 \<and> sint y > - 128 then push_bit (nat (- sint y)) x
      else 0)"

definition arithShiftRightInt64 :: "uint64 \<Rightarrow> uint64 \<Rightarrow> uint64" where
  "arithShiftRightInt64 x y =
     (if 0 \<le> sint y \<and> sint y < 64 then signed_drop_bit (nat (sint y)) x
      else if 64 \<le> sint y then (if sint x < 0 then - 1 else 0)
      else if sint y < 0 \<and> sint y > - 64 then push_bit (nat (- sint y)) x
      else 0)"

text \<open>
  Go's \<open>/\<close> and \<open>%\<close> on signed integers truncate towards zero (\<open>sdiv\<close>, \<open>smod\<close> on \<open>int\<close>)
  and wrap on overflow; on unsigned integers they are \<open>div\<close> and \<open>mod\<close> on words.  The
  interpreter tests for a zero divisor before every division.
\<close>

definition go_quo :: "'a::len word \<Rightarrow> 'a word \<Rightarrow> 'a word" where
  "go_quo a b = word_of_int (sint a sdiv sint b)"

definition go_rem :: "'a::len word \<Rightarrow> 'a word \<Rightarrow> 'a word" where
  "go_rem a b = word_of_int (sint a smod sint b)"

section \<open>The virtual machine (risbee.go)\<close>

text \<open>The zero value of the struct, which \<open>&RisbeeVm{}\<close> allocates.\<close>

definition zero_vm :: "'h \<Rightarrow> 'h RisbeeVm" where
  "zero_vm h = \<lparr>Memory = (\<lambda>_. 0), Registers = (\<lambda>_. 0), Pc = 0, ExitCode = 0,
                Running = False, Host = h\<rparr>"

text \<open>
  \<open>Initialize\<close> assigns the scalar fields of the VM and records the two callbacks with an
  empty syscall table.
\<close>

definition Initialize ::
  "(uint64 \<Rightarrow> 'h \<Rightarrow> 'h) option \<Rightarrow> (string \<Rightarrow> 'h \<Rightarrow> 'h) option \<Rightarrow> 'h RisbeeVm
     \<Rightarrow> 'h RisbeeHost \<times> 'h RisbeeVm" where
  "Initialize exitCallback panicCallback s =
     (\<lparr>SysCalls = Map.empty, ExitCallback = exitCallback, PanicCallback = panicCallback\<rparr>,
      s\<lparr>Pc := 4096, ExitCode := 0, Running := False\<rparr>)"

definition SetSystemCall ::
  "uint64 \<Rightarrow> 'h RisbeeVmSyscallFn \<Rightarrow> 'h RisbeeHost \<Rightarrow> 'h RisbeeHost" where
  "SetSystemCall Address Callback h = h\<lparr>SysCalls := (SysCalls h)(Address \<mapsto> Callback)\<rparr>"

definition Stop :: "'h RisbeeVm \<Rightarrow> 'h RisbeeVm" where
  "Stop s = s\<lparr>Running := False\<rparr>"

definition GetExitCode :: "'h RisbeeVm \<Rightarrow> int" where
  "GetExitCode s = ExitCode s"

definition IsRunning :: "'h RisbeeVm \<Rightarrow> bool" where
  "IsRunning s = Running s"

definition setExitCode :: "int \<Rightarrow> 'h RisbeeVm \<Rightarrow> 'h RisbeeVm" where
  "setExitCode exitCode s = s\<lparr>ExitCode := exitCode\<rparr>"

text \<open>
  \<open>LoadFromBytes\<close>: \<open>copy\<close> overwrites the bytes \<open>4096 ..< 4096 + size\<close> of the arena with
  \<open>Data\<close>.  The result is the boolean returned and the VM afterwards.
\<close>

abbreviation loadOffset :: nat where "loadOffset \<equiv> 4096"

definition LoadFromBytes :: "byte list \<Rightarrow> 'h RisbeeVm \<Rightarrow> bool \<times> 'h RisbeeVm" where
  "LoadFromBytes Data s =
     (let size = length Data in
      if size = 0 \<or> size > RISBEE_STACK_SIZE - loadOffset then (False, s)
      else (True,
            s\<lparr>Memory := (\<lambda>a. if loadOffset \<le> a \<and> a < loadOffset + size
                               then Data ! (a - loadOffset) else Memory s a),
              Registers := (Registers s)(2 := 65536)\<rparr>))"

text \<open>\<open>GetPointerParam\<close> indexes the register array with \<open>10 + Index\<close> (a \<open>uint64\<close>).\<close>

definition GetPointerParam :: "uint64 \<Rightarrow> 'h RisbeeVm \<Rightarrow> go_panic + uint64" where
  "GetPointerParam Index s =
     (if unat (10 + Index) < 32 then Inr (Registers s (unat (10 + Index)))
      else Inl IndexOutOfRange)"

text \<open>\<open>vm.panic\<close>: the callback, if there is one, then \<open>Stop\<close>, then exit code \<open>-1\<close>.\<close>

definition panic :: "'h RisbeeHost \<Rightarrow> string \<Rightarrow> 'h RisbeeVm \<Rightarrow> 'h RisbeeVm" where
  "panic h message s =
     setExitCode (- 1)
       (Stop (case PanicCallback h of
                None \<Rightarrow> s
              | Some cb \<Rightarrow> s\<lparr>Host := cb message (Host s)\<rparr>))"

text \<open>\<open>fetch\<close> slices \<open>vm.Memory[vm.Pc : vm.Pc+4]\<close>; the upper bound wraps as a \<open>uint64\<close>.\<close>

definition fetch :: "'h RisbeeVm \<Rightarrow> go_panic + uint32" where
  "fetch s =
     (case slice_range (Pc s) (Pc s + 4) of
        Inl e \<Rightarrow> Inl e
      | Inr b \<Rightarrow> Inr (uint32LittleEndian (Memory s) b))"

text \<open>
  \<open>handleSyscall\<close> returns the value that the caller stores in register 10, and the VM
  afterwards.  In the exit branch \<open>vm.Stop()\<close> stands inside the test for the callback.
\<close>

definition handleSyscall ::
  "'h RisbeeHost \<Rightarrow> uint64 \<Rightarrow> 'h RisbeeVm \<Rightarrow> go_panic + (uint64 \<times> 'h RisbeeVm)" where
  "handleSyscall h code s =
     (if code = 0 then
        (case GetPointerParam 0 s of
           Inl e \<Rightarrow> Inl e
         | Inr a0 \<Rightarrow>
             (let exitCode = sint a0;
                  s1 = setExitCode exitCode s;
                  s2 = (case ExitCallback h of
                          None \<Rightarrow> s1
                        | Some cb \<Rightarrow> Stop (s1\<lparr>Host := cb (word_of_int exitCode) (Host s1)\<rparr>))
              in Inr (word_of_int exitCode, s2)))
      else
        (case SysCalls h code of
           Some fn \<Rightarrow> Inr (fn s)
         | None \<Rightarrow> Inr (0, panic h ''Invalid system call.'' s)))"

subsection \<open>Decoding\<close>

text \<open>
  The sign-extended immediates that \<open>execute\<close> assembles: \<open>int64(int32(\<dots>) >> k)\<close> is an
  arithmetic shift of the 32-bit value followed by sign extension.
\<close>

definition imm_I :: "uint32 \<Rightarrow> uint64" where
  "imm_I inst = scast (signed_drop_bit 20 (inst AND 0xFFF00000))"

definition imm_S :: "uint32 \<Rightarrow> uint64" where
  "imm_S inst =
     (let imm11_5 = drop_bit 20 inst AND 0xFE0;
          imm4_0 = drop_bit 7 inst AND 0x1F
      in scast (signed_drop_bit 20 (push_bit 20 (imm11_5 OR imm4_0))))"

definition imm_U :: "uint32 \<Rightarrow> uint64" where
  "imm_U inst = scast (inst AND 0xFFFFF000)"

definition imm_J :: "uint32 \<Rightarrow> uint64" where
  "imm_J inst =
     (let imm20 = drop_bit 11 inst AND 0x100000;
          imm10_1 = drop_bit 20 inst AND 0x7FE;
          imm11 = drop_bit 9 inst AND 0x800;
          imm19_12 = inst AND 0xFF000
      in scast (signed_drop_bit 11 (push_bit 11 (imm20 OR imm10_1 OR imm11 OR imm19_12))))"

definition imm_B :: "uint32 \<Rightarrow> uint64" where
  "imm_B inst =
     (let imm12 = drop_bit 19 inst AND 0x1000;
          imm10_5 = drop_bit 20 inst AND 0x7E0;
          imm4_1 = drop_bit 7 inst AND 0x1E;
          imm11 = push_bit 4 inst AND 0x800
      in scast (signed_drop_bit 19 (push_bit 19 (imm12 OR imm10_5 OR imm4_1 OR imm11))))"

text \<open>The fields \<open>opcode\<close>, \<open>rd\<close>, \<open>rs1\<close> and \<open>rs2\<close> that \<open>execute\<close> extracts first.\<close>

definition inst_opcode :: "uint32 \<Rightarrow> uint32" where
  "inst_opcode inst = inst AND 0x7F"

definition inst_rd :: "uint32 \<Rightarrow> uint32" where
  "inst_rd inst = drop_bit 7 inst AND 0x1F"

definition inst_rs1 :: "uint32 \<Rightarrow> uint32" where
  "inst_rs1 inst = drop_bit 15 inst AND 0x1F"

definition inst_rs2 :: "uint32 \<Rightarrow> uint32" where
  "inst_rs2 inst = drop_bit 20 inst AND 0x1F"

definition functionCode3 :: "uint32 \<Rightarrow> uint32" where
  "functionCode3 inst = drop_bit 12 inst AND 0x7"

definition functionCode7 :: "uint32 \<Rightarrow> uint32" where
  "functionCode7 inst = drop_bit 25 inst AND 0x7F"

text \<open>The key \<open>(functionCode7 << 3) | functionCode3\<close> of the two register-register tables.\<close>

definition rt_key :: "uint32 \<Rightarrow> uint32" where
  "rt_key inst = push_bit 3 (functionCode7 inst) OR functionCode3 inst"

text \<open>The guarded write \<open>if rd != 0 { vm.Registers[rd] = val }\<close> and the final \<open>vm.Pc += 4\<close>.\<close>

definition set_rd :: "uint32 \<Rightarrow> uint64 \<Rightarrow> 'h RisbeeVm \<Rightarrow> 'h RisbeeVm" where
  "set_rd rd val s = (if rd \<noteq> 0 then s\<lparr>Registers := (Registers s)(unat rd := val)\<rparr> else s)"

definition next_pc :: "'h RisbeeVm \<Rightarrow> 'h RisbeeVm" where
  "next_pc s = s\<lparr>Pc := Pc s + 4\<rparr>"

subsection \<open>The value computed by each instruction class\<close>

text \<open>
  Each inner \<open>switch\<close> of \<open>execute\<close> is a function of its operands.  \<open>Inr v\<close> is the value
  assigned to \<open>val\<close>; \<open>Inl message\<close> is a \<open>default\<close> branch, which calls
  \<open>vm.panic(message)\<close>.  A memory access, which can panic in the Go runtime, adds an outer
  \<open>go_panic\<close> sum.
\<close>

definition load_val ::
  "uint32 \<Rightarrow> (nat \<Rightarrow> byte) \<Rightarrow> uint64 \<Rightarrow> go_panic + (string + uint64)" where
  "load_val fc3 m addr =
     (if fc3 = RISBEE_FC3_LB then
        (case index_memory m addr of Inl e \<Rightarrow> Inl e | Inr b \<Rightarrow> Inr (Inr (scast b)))
      else if fc3 = RISBEE_FC3_LHW then
        (case slice_from addr of Inl e \<Rightarrow> Inl e
         | Inr b \<Rightarrow> Inr (Inr (scast (uint16LittleEndian m b))))
      else if fc3 = RISBEE_FC3_LW then
        (case slice_from addr of Inl e \<Rightarrow> Inl e
         | Inr b \<Rightarrow> Inr (Inr (scast (uint32LittleEndian m b))))
      else if fc3 = RISBEE_FC3_LDW then
        (case slice_from addr of Inl e \<Rightarrow> Inl e
         | Inr b \<Rightarrow> Inr (Inr (uint64LittleEndian m b)))
      else if fc3 = RISBEE_FC3_LBU then
        (case index_memory m addr of Inl e \<Rightarrow> Inl e | Inr b \<Rightarrow> Inr (Inr (ucast b)))
      else if fc3 = RISBEE_FC3_LHU then
        (case slice_from addr of Inl e \<Rightarrow> Inl e
         | Inr b \<Rightarrow> Inr (Inr (ucast (uint16LittleEndian m b))))
      else if fc3 = RISBEE_FC3_LRES then
        (case slice_from addr of Inl e \<Rightarrow> Inl e
         | Inr b \<Rightarrow> Inr (Inr (ucast (uint32LittleEndian m b))))
      else Inr (Inl ''Invalid load instruction.''))"

definition store_mem ::
  "uint32 \<Rightarrow> (nat \<Rightarrow> byte) \<Rightarrow> uint64 \<Rightarrow> uint64 \<Rightarrow> go_panic + (string + (nat \<Rightarrow> byte))" where
  "store_mem fc3 m addr val =
     (if fc3 = RISBEE_FC3_SB then
        (if unat addr < RISBEE_STACK_SIZE then Inr (Inr (m(unat addr := ucast val)))
         else Inl IndexOutOfRange)
      else if fc3 = RISBEE_FC3_SHW then
        (case slice_from addr of Inl e \<Rightarrow> Inl e
         | Inr b \<Rightarrow> Inr (Inr (putUint16 m b (ucast val))))
      else if fc3 = RISBEE_FC3_SW then
        (case slice_from addr of Inl e \<Rightarrow> Inl e
         | Inr b \<Rightarrow> Inr (Inr (putUint32 m b (ucast val))))
      else if fc3 = RISBEE_FC3_SDW then
        (case slice_from addr of Inl e \<Rightarrow> Inl e
         | Inr b \<Rightarrow> Inr (Inr (putUint64 m b val)))
      else Inr (Inl ''Invalid store instruction.''))"

definition imm_val :: "uint32 \<Rightarrow> uint64 \<Rightarrow> string + uint64" where
  "imm_val inst val =
     (let fc3 = functionCode3 inst;
          immediate = imm_I inst;
          shiftAmount = ucast (drop_bit 20 inst AND 0x3F) :: uint64
      in if fc3 = RISBEE_FC3_ADDI then Inr (val + immediate)
         else if fc3 = RISBEE_FC3_SLLI then Inr (shiftLeftInt64 val shiftAmount)
         else if fc3 = RISBEE_FC3_SLTI then Inr (if sint val < sint immediate then 1 else 0)
         else if fc3 = RISBEE_FC3_SLTIU then Inr (if val < immediate then 1 else 0)
         else if fc3 = RISBEE_FC3_XORI then Inr (val XOR immediate)
         else if fc3 = RISBEE_FC3_SRLI then
           (let functionCode6 = drop_bit 26 inst AND 0x3F :: uint32
            in if drop_bit 4 functionCode6 = 0x0 then Inr (shiftRightInt64 val shiftAmount)
               else if drop_bit 4 functionCode6 = 0x1 then
                 Inr (arithShiftRightInt64 val shiftAmount)
               else Inl ''Invalid immediate shift instruction.'')
         else if fc3 = RISBEE_FC3_ORI then Inr (val OR immediate)
         else if fc3 = RISBEE_FC3_ANDI then Inr (val AND immediate)
         else Inl ''Invalid immediate instruction.'')"

text \<open>In the \<open>RISBEE_OPINST_IALU\<close> block the shift amount of case 5 is the field \<open>rs2\<close>.\<close>

definition ialu_val :: "uint32 \<Rightarrow> uint32 \<Rightarrow> uint64 \<Rightarrow> string + uint64" where
  "ialu_val inst rs2 val =
     (let fc3 = functionCode3 inst;
          immediate = imm_I inst
      in if fc3 = RISBEE_FC3_SLLIW then Inr (val + immediate)
         else if fc3 = RISBEE_FC3_SRLIW then Inr (shiftLeftInt64 val immediate)
         else if fc3 = RISBEE_FC3_SRAIW then
           (let shiftAmount = ucast rs2 :: uint64;
                fc7 = functionCode7 inst
            in if drop_bit 5 fc7 = 0x0 then Inr (shiftRightInt64 val shiftAmount)
               else if drop_bit 5 fc7 = 0x1 then Inr (arithShiftRightInt64 val shiftAmount)
               else Inl ''Invalid immediate shift instruction.'')
         else if fc3 = RISBEE_FC3_SLLI64 then Inr (shiftLeftInt64 val (immediate AND 0x3F))
         else if fc3 = RISBEE_FC3_SRLI64 then Inr (shiftRightInt64 val (immediate AND 0x3F))
         else if fc3 = RISBEE_FC3_SRAI64 then
           Inr (arithShiftRightInt64 val (immediate AND 0x3F))
         else Inl ''Invalid immediate instruction.'')"

abbreviation INT64_MIN :: uint64 where "INT64_MIN \<equiv> 0x8000000000000000"
abbreviation INT32_MIN :: uint32 where "INT32_MIN \<equiv> 0x80000000"

definition rt64_val :: "uint32 \<Rightarrow> uint64 \<Rightarrow> uint64 \<Rightarrow> string + uint64" where
  "rt64_val key val1 val2 =
     (if key = RISBEE_OPINST_RT64_ADD then Inr (val1 + val2)
      else if key = RISBEE_OPINST_RT64_SUB then Inr (val1 - val2)
      else if key = RISBEE_OPINST_RT64_SLL then Inr (shiftLeftInt64 val1 (val2 AND 0x1F))
      else if key = RISBEE_OPINST_RT64_SLT then Inr (if sint val1 < sint val2 then 1 else 0)
      else if key = RISBEE_OPINST_RT64_SLTU then Inr (if val1 < val2 then 1 else 0)
      else if key = RISBEE_OPINST_RT64_XOR then Inr (val1 XOR val2)
      else if key = RISBEE_OPINST_RT64_SRL then Inr (shiftRightInt64 val1 (val2 AND 0x1F))
      else if key = RISBEE_OPINST_RT64_SRA then
        Inr (arithShiftRightInt64 val1 (val2 AND 0x1F))
      else if key = RISBEE_OPINST_RT64_OR then Inr (val1 OR val2)
      else if key = RISBEE_OPINST_RT64_AND then Inr (val1 AND val2)
      else if key = RISBEE_OPINST_RT64_MUL then Inr (val1 * val2)
      else if key = RISBEE_OPINST_RT64_MULH then Inr (shiftRightInt128 (val1 * val2) 64)
      else if key = RISBEE_OPINST_RT64_MULHSU then Inr (shiftRightInt128 (val1 * val2) 64)
      else if key = RISBEE_OPINST_RT64_MULHU then Inr (shiftRightInt128 (val1 * val2) 64)
      else if key = RISBEE_OPINST_RT64_DIV then
        Inr (if val1 = INT64_MIN \<and> val2 = - 1 then INT64_MIN
             else if val2 = 0 then - 1
             else go_quo val1 val2)
      else if key = RISBEE_OPINST_RT64_DIVU then
        Inr (if val2 = 0 then - 1 else val1 div val2)
      else if key = RISBEE_OPINST_RT64_REM then
        Inr (if val1 = INT64_MIN \<and> val2 = - 1 then 0
             else if val2 = 0 then val1
             else go_rem val1 val2)
      else if key = RISBEE_OPINST_RT64_REMU then
        Inr (if val2 = 0 then val1 else val1 mod val2)
      else Inl ''Invalid arith instruction.'')"

definition rt32_val :: "uint32 \<Rightarrow> uint64 \<Rightarrow> uint64 \<Rightarrow> string + uint64" where
  "rt32_val key val1 val2 =
     (if key = RISBEE_OPINST_RT32_ADDW then Inr (val1 + val2)
      else if key = RISBEE_OPINST_RT32_SUBW then Inr (val1 - val2)
      else if key = RISBEE_OPINST_RT32_SLLW then Inr (shiftLeftInt64 val1 (val2 AND 0x1F))
      else if key = RISBEE_OPINST_RT32_SRLW then Inr (shiftRightInt64 val1 (val2 AND 0x1F))
      else if key = RISBEE_OPINST_RT32_SRAW then
        Inr (arithShiftRightInt64 val1 (val2 AND 0x1F))
      else if key = RISBEE_OPINST_RT32_MULW then
        Inr (scast ((ucast val1 :: uint32) * (ucast val2 :: uint32)))
      else if key = RISBEE_OPINST_RT32_DIVW then
        (let dividend = ucast val1 :: uint32; divisor = ucast val2 :: uint32
         in Inr (if dividend = INT32_MIN \<and> divisor = - 1 then - 2147483648
                 else if divisor = 0 then - 1
                 else scast (go_quo dividend divisor)))
      else if key = RISBEE_OPINST_RT32_DIVUW then
        (let dividend = ucast val1 :: uint32; divisor = ucast val2 :: uint32
         in Inr (if divisor = 0 then - 1 else ucast (dividend div divisor)))
      else if key = RISBEE_OPINST_RT32_REMW then
        (let dividend = ucast val1 :: uint32; divisor = ucast val2 :: uint32
         in Inr (if dividend = INT32_MIN \<and> divisor = - 1 then 0
                 else if divisor = 0 then scast dividend
                 else scast (go_rem dividend divisor)))
      else if key = RISBEE_OPINST_RT32_REMUW then
        (let dividend = ucast val1 :: uint32; divisor = ucast val2 :: uint32
         in Inr (if divisor = 0 then ucast dividend else ucast (dividend mod divisor)))
      else Inl ''Invalid store doubleword instruction.'')"

definition branch_cond :: "uint32 \<Rightarrow> uint64 \<Rightarrow> uint64 \<Rightarrow> string + bool" where
  "branch_cond fc3 val1 val2 =
     (if fc3 = RISBEE_FC3_BEQ then Inr (val1 = val2)
      else if fc3 = RISBEE_FC3_BNE then Inr (val1 \<noteq> val2)
      else if fc3 = RISBEE_FC3_BLT then Inr (sint val1 < sint val2)
      else if fc3 = RISBEE_FC3_BGE then Inr (sint val1 \<ge> sint val2)
      else if fc3 = RISBEE_FC3_BLTU then Inr (val1 < val2)
      else if fc3 = RISBEE_FC3_BGEU then Inr (val1 \<ge> val2)
      else Inl ''Invalid branch instruction.'')"

subsection \<open>The cases of \<open>execute\<close>\<close>

text \<open>
  One definition for each \<open>case\<close> of the outer \<open>switch\<close>.  After a \<open>default\<close> branch has
  called \<open>vm.panic\<close> the function goes on: it writes \<open>val\<close> (still 0, or still the value of
  \<open>rs1\<close>) to \<open>rd\<close> and adds 4 to the program counter.
\<close>

definition exec_load ::
  "'h RisbeeHost \<Rightarrow> uint32 \<Rightarrow> uint32 \<Rightarrow> uint32 \<Rightarrow> 'h RisbeeVm \<Rightarrow> go_panic + 'h RisbeeVm" where
  "exec_load h inst rd rs1 s =
     (let addr = Registers s (unat rs1) + imm_I inst
      in case load_val (functionCode3 inst) (Memory s) addr of
           Inl e \<Rightarrow> Inl e
         | Inr (Inl message) \<Rightarrow> Inr (next_pc (set_rd rd 0 (panic h message s)))
         | Inr (Inr val) \<Rightarrow> Inr (next_pc (set_rd rd val s)))"

definition exec_store ::
  "'h RisbeeHost \<Rightarrow> uint32 \<Rightarrow> uint32 \<Rightarrow> uint32 \<Rightarrow> 'h RisbeeVm \<Rightarrow> go_panic + 'h RisbeeVm" where
  "exec_store h inst rs1 rs2 s =
     (let addr = Registers s (unat rs1) + imm_S inst;
          val = Registers s (unat rs2)
      in case store_mem (functionCode3 inst) (Memory s) addr val of
           Inl e \<Rightarrow> Inl e
         | Inr (Inl message) \<Rightarrow> Inr (next_pc (panic h message s))
         | Inr (Inr m) \<Rightarrow> Inr (next_pc (s\<lparr>Memory := m\<rparr>)))"

definition exec_imm ::
  "'h RisbeeHost \<Rightarrow> uint32 \<Rightarrow> uint32 \<Rightarrow> uint32 \<Rightarrow> 'h RisbeeVm \<Rightarrow> go_panic + 'h RisbeeVm" where
  "exec_imm h inst rd rs1 s =
     (let val = Registers s (unat rs1)
      in case imm_val inst val of
           Inl message \<Rightarrow> Inr (next_pc (set_rd rd val (panic h message s)))
         | Inr v \<Rightarrow> Inr (next_pc (set_rd rd v s)))"

definition exec_ialu ::
  "'h RisbeeHost \<Rightarrow> uint32 \<Rightarrow> uint32 \<Rightarrow> uint32 \<Rightarrow> uint32 \<Rightarrow> 'h RisbeeVm
     \<Rightarrow> go_panic + 'h RisbeeVm" where
  "exec_ialu h inst rd rs1 rs2 s =
     (let val = Registers s (unat rs1)
      in case ialu_val inst rs2 val of
           Inl message \<Rightarrow> Inr (next_pc (set_rd rd val (panic h message s)))
         | Inr v \<Rightarrow> Inr (next_pc (set_rd rd v s)))"

definition exec_rt64 ::
  "'h RisbeeHost \<Rightarrow> uint32 \<Rightarrow> uint32 \<Rightarrow> uint32 \<Rightarrow> uint32 \<Rightarrow> 'h RisbeeVm
     \<Rightarrow> go_panic + 'h RisbeeVm" where
  "exec_rt64 h inst rd rs1 rs2 s =
     (let val1 = Registers s (unat rs1);
          val2 = Registers s (unat rs2)
      in case rt64_val (rt_key inst) val1 val2 of
           Inl message \<Rightarrow> Inr (next_pc (set_rd rd 0 (panic h message s)))
         | Inr v \<Rightarrow> Inr (next_pc (set_rd rd v s)))"

definition exec_rt32 ::
  "'h RisbeeHost \<Rightarrow> uint32 \<Rightarrow> uint32 \<Rightarrow> uint32 \<Rightarrow> uint32 \<Rightarrow> 'h RisbeeVm
     \<Rightarrow> go_panic + 'h RisbeeVm" where
  "exec_rt32 h inst rd rs1 rs2 s =
     (let val1 = Registers s (unat rs1);
          val2 = Registers s (unat rs2)
      in case rt32_val (rt_key inst) val1 val2 of
           Inl message \<Rightarrow> Inr (next_pc (set_rd rd 0 (panic h message s)))
         | Inr v \<Rightarrow> Inr (next_pc (set_rd rd v s)))"

definition exec_jal :: "uint32 \<Rightarrow> uint32 \<Rightarrow> 'h RisbeeVm \<Rightarrow> go_panic + 'h RisbeeVm" where
  "exec_jal inst rd s =
     (let s1 = set_rd rd (Pc s + 4) s
      in Inr (s1\<lparr>Pc := Pc s1 + imm_J inst\<rparr>))"

definition exec_jalr ::
  "uint32 \<Rightarrow> uint32 \<Rightarrow> uint32 \<Rightarrow> 'h RisbeeVm \<Rightarrow> go_panic + 'h RisbeeVm" where
  "exec_jalr inst rd rs1 s =
     (let pc = Pc s + 4;
          s1 = s\<lparr>Pc := (Registers s (unat rs1) + imm_I inst) AND - 2\<rparr>
      in Inr (set_rd rd pc s1))"

definition exec_branch ::
  "'h RisbeeHost \<Rightarrow> uint32 \<Rightarrow> uint32 \<Rightarrow> uint32 \<Rightarrow> 'h RisbeeVm \<Rightarrow> go_panic + 'h RisbeeVm" where
  "exec_branch h inst rs1 rs2 s =
     (let val1 = Registers s (unat rs1);
          val2 = Registers s (unat rs2)
      in case branch_cond (functionCode3 inst) val1 val2 of
           Inl message \<Rightarrow> Inr (next_pc (panic h message s))
         | Inr condition \<Rightarrow>
             (if condition then Inr (s\<lparr>Pc := Pc s + imm_B inst\<rparr>) else Inr (next_pc s)))"

definition exec_call :: "'h RisbeeHost \<Rightarrow> uint32 \<Rightarrow> 'h RisbeeVm \<Rightarrow> go_panic + 'h RisbeeVm" where
  "exec_call h inst s =
     (let functionCode11 = drop_bit 20 inst AND 0xFFF :: uint32
      in if functionCode11 = 0x0 then
           (let code = Registers s 17
            in case handleSyscall h code s of
                 Inl e \<Rightarrow> Inl e
               | Inr (ret, s1) \<Rightarrow> Inr (next_pc (s1\<lparr>Registers := (Registers s1)(10 := ret)\<rparr>)))
         else if functionCode11 = 0x1 then
           Inr (next_pc (s\<lparr>ExitCode := - 1, Running := False\<rparr>))
         else Inr (next_pc (panic h ''Invalid system instruction.'' s)))"

definition execute :: "'h RisbeeHost \<Rightarrow> uint32 \<Rightarrow> 'h RisbeeVm \<Rightarrow> go_panic + 'h RisbeeVm" where
  "execute h inst s =
     (let opcode = inst_opcode inst;
          rd = inst_rd inst;
          rs1 = inst_rs1 inst;
          rs2 = inst_rs2 inst
      in if opcode = RISBEE_OPINST_LOAD then exec_load h inst rd rs1 s
         else if opcode = RISBEE_OPINST_STORE then exec_store h inst rs1 rs2 s
         else if opcode = RISBEE_OPINST_IMM then exec_imm h inst rd rs1 s
         else if opcode = RISBEE_OPINST_IALU then exec_ialu h inst rd rs1 rs2 s
         else if opcode = RISBEE_OPINST_RT64 then exec_rt64 h inst rd rs1 rs2 s
         else if opcode = RISBEE_OPINST_RT32 then exec_rt32 h inst rd rs1 rs2 s
         else if opcode = RISBEE_OPINST_LUI then Inr (next_pc (set_rd rd (imm_U inst) s))
         else if opcode = RISBEE_OPINST_AUIPC then
           Inr (next_pc (set_rd rd (Pc s + imm_U inst) s))
         else if opcode = RISBEE_OPINST_JAL then exec_jal inst rd s
         else if opcode = RISBEE_OPINST_JALR then exec_jalr inst rd rs1 s
         else if opcode = RISBEE_OPINST_BRANCH then exec_branch h inst rs1 rs2 s
         else if opcode = RISBEE_OPINST_FENCE then Inr (next_pc s)
         else if opcode = RISBEE_OPINST_CALL then exec_call h inst s
         else Inr (next_pc (panic h ''Invalid opcode instruction.'' s)))"

subsection \<open>The loop of \<open>Run\<close>\<close>

text \<open>
  One iteration of the loop body is \<open>step\<close>.  The loop need not end, so \<open>run_loop\<close> is a
  partial function: \<open>None\<close> is a run that never returns, \<open>Some (Inl e)\<close> a run that the Go
  runtime aborts, \<open>Some (Inr s)\<close> a run that returns with the VM in state \<open>s\<close>.
\<close>

definition step :: "'h RisbeeHost \<Rightarrow> 'h RisbeeVm \<Rightarrow> go_panic + 'h RisbeeVm" where
  "step h s = (case fetch s of Inl e \<Rightarrow> Inl e | Inr inst \<Rightarrow> execute h inst s)"

partial_function (option) run_loop ::
  "'h RisbeeHost \<Rightarrow> 'h RisbeeVm \<Rightarrow> (go_panic + 'h RisbeeVm) option" where
  "run_loop h s =
     (if Running s then
        (case step h s of Inl e \<Rightarrow> Some (Inl e) | Inr s1 \<Rightarrow> run_loop h s1)
      else Some (Inr s))"

definition Run :: "'h RisbeeHost \<Rightarrow> 'h RisbeeVm \<Rightarrow> (go_panic + 'h RisbeeVm) option" where
  "Run h s = run_loop h (s\<lparr>Running := True\<rparr>)"

text \<open>
  The states at the instruction boundaries of a run that starts in \<open>s0\<close>: \<open>s0\<close> itself, and
  the state after each iteration that the loop takes.
\<close>

inductive boundary :: "'h RisbeeHost \<Rightarrow> 'h RisbeeVm \<Rightarrow> 'h RisbeeVm \<Rightarrow> bool"
  for h :: "'h RisbeeHost" and s0 :: "'h RisbeeVm" where
  start: "boundary h s0 s0"
| iterate: "boundary h s0 s \<Longrightarrow> Running s \<Longrightarrow> step h s = Inr s1 \<Longrightarrow> boundary h s0 s1"

section \<open>Example hosts and programs\<close>

text \<open>
  An embedder whose state is a log of what its callbacks were told.  \<open>bare_host\<close> registers
  nothing; \<open>demo_host\<close> registers both callbacks and, as the example program of the
  repository does, a syscall 1 that takes a pointer in register 10 and returns it.
  \<open>boot Data\<close> is a fresh VM after \<open>Initialize\<close> and \<open>LoadFromBytes Data\<close>.
\<close>

datatype event = Exited uint64 | Panicked string | Printed uint64

definition on_exit :: "uint64 \<Rightarrow> event list \<Rightarrow> event list" where
  "on_exit status log = log @ [Exited status]"

definition on_panic :: "string \<Rightarrow> event list \<Rightarrow> event list" where
  "on_panic message log = log @ [Panicked message]"

definition print_syscall :: "event list RisbeeVmSyscallFn" where
  "print_syscall vm = (Registers vm 10, vm\<lparr>Host := Host vm @ [Printed (Registers vm 10)]\<rparr>)"

definition bare_host :: "event list RisbeeHost" where
  "bare_host = fst (Initialize None None (zero_vm []))"

definition demo_host :: "event list RisbeeHost" where
  "demo_host =
     SetSystemCall 1 print_syscall (fst (Initialize (Some on_exit) (Some on_panic) (zero_vm [])))"

definition boot :: "byte list \<Rightarrow> event list RisbeeVm" where
  "boot Data = snd (LoadFromBytes Data (snd (Initialize None None (zero_vm []))))"

text \<open>
  A handler that writes register 0 through the VM it is handed (the field \<open>Registers\<close> is
  exported), and a host that registers it as syscall 1.
\<close>

definition clobber_syscall :: "event list RisbeeVmSyscallFn" where
  "clobber_syscall vm = (0, vm\<lparr>Registers := (Registers vm)(0 := 7)\<rparr>)"

definition clobber_host :: "event list RisbeeHost" where
  "clobber_host = SetSystemCall 1 clobber_syscall (fst (Initialize None None (zero_vm [])))"

text \<open>A VM, not yet running, whose registers 1 and 2 hold the two operands given.\<close>

definition operands :: "uint64 \<Rightarrow> uint64 \<Rightarrow> event list RisbeeVm" where
  "operands a b =
     (zero_vm [])\<lparr>Registers := (Registers (zero_vm [] :: event list RisbeeVm))(1 := a, 2 := b)\<rparr>"

section \<open>What the specification prescribes for the instructions compared below\<close>

text \<open>
  Written from the specification, not from the code: the 64-bit shifts by the low six
  bits of \<open>rs2\<close>, the high half of the 128-bit product, and the word instructions of
  opcode \<open>0x1B\<close>, which compute on the low 32 bits and sign-extend.
\<close>

definition spec_sll :: "uint64 \<Rightarrow> uint64 \<Rightarrow> uint64" where
  "spec_sll a b = push_bit (unat (b AND 0x3F)) a"

definition spec_srl :: "uint64 \<Rightarrow> uint64 \<Rightarrow> uint64" where
  "spec_srl a b = drop_bit (unat (b AND 0x3F)) a"

definition spec_sra :: "uint64 \<Rightarrow> uint64 \<Rightarrow> uint64" where
  "spec_sra a b = signed_drop_bit (unat (b AND 0x3F)) a"

definition spec_mulh :: "uint64 \<Rightarrow> uint64 \<Rightarrow> uint64" where
  "spec_mulh a b = word_of_int ((sint a * sint b) div 2 ^ 64)"

definition spec_mulhsu :: "uint64 \<Rightarrow> uint64 \<Rightarrow> uint64" where
  "spec_mulhsu a b = word_of_int ((sint a * uint b) div 2 ^ 64)"

definition spec_mulhu :: "uint64 \<Rightarrow> uint64 \<Rightarrow> uint64" where
  "spec_mulhu a b = word_of_int ((uint a * uint b) div 2 ^ 64)"

definition spec_addiw :: "uint64 \<Rightarrow> uint64 \<Rightarrow> uint64" where
  "spec_addiw a imm = scast (ucast (a + imm) :: uint32)"

definition spec_slliw :: "uint64 \<Rightarrow> nat \<Rightarrow> uint64" where
  "spec_slliw a shamt = scast (push_bit shamt (ucast a :: uint32))"

definition spec_srliw :: "uint64 \<Rightarrow> nat \<Rightarrow> uint64" where
  "spec_srliw a shamt = scast (drop_bit shamt (ucast a :: uint32))"

definition spec_sraiw :: "uint64 \<Rightarrow> nat \<Rightarrow> uint64" where
  "spec_sraiw a shamt = scast (signed_drop_bit shamt (ucast a :: uint32))"

section \<open>When \<open>execute\<close> calls \<open>vm.panic\<close>\<close>

text \<open>
  The \<open>default\<close> branches of \<open>execute\<close> and the last branch of \<open>handleSyscall\<close>, read off
  the instruction word: an opcode outside the thirteen cases, a function code outside the
  cases of the inner \<open>switch\<close>, or an \<open>ECALL\<close> whose code in register 17 is neither 0 nor
  in the table.  The result is the message passed to \<open>vm.panic\<close>.
\<close>

definition panic_message :: "'h RisbeeHost \<Rightarrow> uint32 \<Rightarrow> 'h RisbeeVm \<Rightarrow> string option" where
  "panic_message h inst s =
     (let opcode = inst_opcode inst;
          fc3 = functionCode3 inst;
          key = rt_key inst
      in if opcode = RISBEE_OPINST_LOAD then
           (if fc3 \<in> {RISBEE_FC3_LB, RISBEE_FC3_LHW, RISBEE_FC3_LW, RISBEE_FC3_LDW,
                       RISBEE_FC3_LBU, RISBEE_FC3_LHU, RISBEE_FC3_LRES} then None
            else Some ''Invalid load instruction.'')
         else if opcode = RISBEE_OPINST_STORE then
           (if fc3 \<in> {RISBEE_FC3_SB, RISBEE_FC3_SHW, RISBEE_FC3_SW, RISBEE_FC3_SDW} then None
            else Some ''Invalid store instruction.'')
         else if opcode = RISBEE_OPINST_IMM then
           (if fc3 = RISBEE_FC3_SRLI \<and> drop_bit 4 (drop_bit 26 inst AND 0x3F) \<notin> {0x0, 0x1}
            then Some ''Invalid immediate shift instruction.'' else None)
         else if opcode = RISBEE_OPINST_IALU then
           (if fc3 = RISBEE_FC3_SRAIW then
              (if drop_bit 5 (functionCode7 inst) \<in> {0x0, 0x1} then None
               else Some ''Invalid immediate shift instruction.'')
            else if fc3 \<in> {RISBEE_FC3_SLLIW, RISBEE_FC3_SRLIW, RISBEE_FC3_SLLI64,
                            RISBEE_FC3_SRLI64, RISBEE_FC3_SRAI64} then None
            else Some ''Invalid immediate instruction.'')
         else if opcode = RISBEE_OPINST_RT64 then
           (if key \<in> {RISBEE_OPINST_RT64_ADD, RISBEE_OPINST_RT64_SUB, RISBEE_OPINST_RT64_SLL,
                       RISBEE_OPINST_RT64_SLT, RISBEE_OPINST_RT64_SLTU, RISBEE_OPINST_RT64_XOR,
                       RISBEE_OPINST_RT64_SRL, RISBEE_OPINST_RT64_SRA, RISBEE_OPINST_RT64_OR,
                       RISBEE_OPINST_RT64_AND, RISBEE_OPINST_RT64_MUL, RISBEE_OPINST_RT64_MULH,
                       RISBEE_OPINST_RT64_MULHSU, RISBEE_OPINST_RT64_MULHU,
                       RISBEE_OPINST_RT64_DIV, RISBEE_OPINST_RT64_DIVU, RISBEE_OPINST_RT64_REM,
                       RISBEE_OPINST_RT64_REMU} then None
            else Some ''Invalid arith instruction.'')
         else if opcode = RISBEE_OPINST_RT32 then
           (if key \<in> {RISBEE_OPINST_RT32_ADDW, RISBEE_OPINST_RT32_SUBW,
                       RISBEE_OPINST_RT32_SLLW, RISBEE_OPINST_RT32_SRLW,
                       RISBEE_OPINST_RT32_SRAW, RISBEE_OPINST_RT32_MULW,
                       RISBEE_OPINST_RT32_DIVW, RISBEE_OPINST_RT32_DIVUW,
                       RISBEE_OPINST_RT32_REMW, RISBEE_OPINST_RT32_REMUW} then None
            else Some ''Invalid store doubleword instruction.'')
         else if opcode \<in> {RISBEE_OPINST_LUI, RISBEE_OPINST_AUIPC, RISBEE_OPINST_JAL,
                            RISBEE_OPINST_JALR, RISBEE_OPINST_FENCE} then None
         else if opcode = RISBEE_OPINST_BRANCH then
           (if fc3 \<in> {RISBEE_FC3_BEQ, RISBEE_FC3_BNE, RISBEE_FC3_BLT, RISBEE_FC3_BGE,
                       RISBEE_FC3_BLTU, RISBEE_FC3_BGEU} then None
            else Some ''Invalid branch instruction.'')
         else if opcode = RISBEE_OPINST_CALL then
           (let functionCode11 = drop_bit 20 inst AND 0xFFF :: uint32
            in if functionCode11 = 0x0 then
                 (if Registers s 17 \<noteq> 0 \<and> SysCalls h (Registers s 17) = None
                  then Some ''Invalid system call.'' else None)
               else if functionCode11 = 0x1 then None
               else Some ''Invalid system instruction.'')
         else Some ''Invalid opcode instruction.'')"

section \<open>Unfolding \<open>execute\<close> by opcode\<close>

lemma execute_opcode:
  "inst_opcode inst = RISBEE_OPINST_LOAD \<Longrightarrow>
     execute h inst s = exec_load h inst (inst_rd inst) (inst_rs1 inst) s"
  "inst_opcode inst = RISBEE_OPINST_STORE \<Longrightarrow>
     execute h inst s = exec_store h inst (inst_rs1 inst) (inst_rs2 inst) s"
  "inst_opcode inst = RISBEE_OPINST_IMM \<Longrightarrow>
     execute h inst s = exec_imm h inst (inst_rd inst) (inst_rs1 inst) s"
  "inst_opcode inst = RISBEE_OPINST_IALU \<Longrightarrow>
     execute h inst s = exec_ialu h inst (inst_rd inst) (inst_rs1 inst) (inst_rs2 inst) s"
  "inst_opcode inst = RISBEE_OPINST_RT64 \<Longrightarrow>
     execute h inst s = exec_rt64 h inst (inst_rd inst) (inst_rs1 inst) (inst_rs2 inst) s"
  "inst_opcode inst = RISBEE_OPINST_RT32 \<Longrightarrow>
     execute h inst s = exec_rt32 h inst (inst_rd inst) (inst_rs1 inst) (inst_rs2 inst) s"
  "inst_opcode inst = RISBEE_OPINST_LUI \<Longrightarrow>
     execute h inst s = Inr (next_pc (set_rd (inst_rd inst) (imm_U inst) s))"
  "inst_opcode inst = RISBEE_OPINST_AUIPC \<Longrightarrow>
     execute h inst s = Inr (next_pc (set_rd (inst_rd inst) (Pc s + imm_U inst) s))"
  "inst_opcode inst = RISBEE_OPINST_JAL \<Longrightarrow>
     execute h inst s = exec_jal inst (inst_rd inst) s"
  "inst_opcode inst = RISBEE_OPINST_JALR \<Longrightarrow>
     execute h inst s = exec_jalr inst (inst_rd inst) (inst_rs1 inst) s"
  "inst_opcode inst = RISBEE_OPINST_BRANCH \<Longrightarrow>
     execute h inst s = exec_branch h inst (inst_rs1 inst) (inst_rs2 inst) s"
  "inst_opcode inst = RISBEE_OPINST_FENCE \<Longrightarrow> execute h inst s = Inr (next_pc s)"
  "inst_opcode inst = RISBEE_OPINST_CALL \<Longrightarrow> execute h inst s = exec_call h inst s"
  by (simp_all add: execute_def Let_def)

lemma execute_unknown_opcode:
  "inst_opcode inst \<notin> {RISBEE_OPINST_LOAD, RISBEE_OPINST_STORE, RISBEE_OPINST_IMM,
      RISBEE_OPINST_IALU, RISBEE_OPINST_RT64, RISBEE_OPINST_RT32, RISBEE_OPINST_LUI,
      RISBEE_OPINST_AUIPC, RISBEE_OPINST_JAL, RISBEE_OPINST_JALR, RISBEE_OPINST_BRANCH,
      RISBEE_OPINST_FENCE, RISBEE_OPINST_CALL} \<Longrightarrow>
   execute h inst s = Inr (next_pc (panic h ''Invalid opcode instruction.'' s))"
  by (simp add: execute_def Let_def)

lemma opcode_cases:
  obtains
    (load) "inst_opcode inst = RISBEE_OPINST_LOAD"
  | (store) "inst_opcode inst = RISBEE_OPINST_STORE"
  | (imm) "inst_opcode inst = RISBEE_OPINST_IMM"
  | (ialu) "inst_opcode inst = RISBEE_OPINST_IALU"
  | (rt64) "inst_opcode inst = RISBEE_OPINST_RT64"
  | (rt32) "inst_opcode inst = RISBEE_OPINST_RT32"
  | (lui) "inst_opcode inst = RISBEE_OPINST_LUI"
  | (auipc) "inst_opcode inst = RISBEE_OPINST_AUIPC"
  | (jal) "inst_opcode inst = RISBEE_OPINST_JAL"
  | (jalr) "inst_opcode inst = RISBEE_OPINST_JALR"
  | (branch) "inst_opcode inst = RISBEE_OPINST_BRANCH"
  | (fence) "inst_opcode inst = RISBEE_OPINST_FENCE"
  | (call) "inst_opcode inst = RISBEE_OPINST_CALL"
  | (unknown) "inst_opcode inst \<notin> {RISBEE_OPINST_LOAD, RISBEE_OPINST_STORE,
      RISBEE_OPINST_IMM, RISBEE_OPINST_IALU, RISBEE_OPINST_RT64, RISBEE_OPINST_RT32,
      RISBEE_OPINST_LUI, RISBEE_OPINST_AUIPC, RISBEE_OPINST_JAL, RISBEE_OPINST_JALR,
      RISBEE_OPINST_BRANCH, RISBEE_OPINST_FENCE, RISBEE_OPINST_CALL}"
  by blast

section \<open>What the state updates leave alone\<close>

lemma Registers_next_pc [simp]: "Registers (next_pc s) = Registers s"
  by (simp add: next_pc_def)

lemma Registers_panic [simp]: "Registers (panic h m s) = Registers s"
  by (simp add: panic_def setExitCode_def Stop_def split: option.split)

lemma set_rd_zero [simp]: "Registers (set_rd rd v s) 0 = Registers s 0"
  by (simp add: set_rd_def unat_eq_0)

lemma set_rd_0 [simp]: "set_rd 0 v s = s"
  by (simp add: set_rd_def)

lemma Pc_set_rd [simp]: "Pc (set_rd rd v s) = Pc s"
  by (simp add: set_rd_def)

lemma Pc_panic [simp]: "Pc (panic h m s) = Pc s"
  by (simp add: panic_def setExitCode_def Stop_def split: option.split)

lemma after_panic:
  "ExitCode (next_pc (set_rd rd v (panic h message s))) = - 1"
  "\<not> Running (next_pc (set_rd rd v (panic h message s)))"
  "Host (next_pc (set_rd rd v (panic h message s))) =
     (case PanicCallback h of None \<Rightarrow> Host s | Some cb \<Rightarrow> cb message (Host s))"
  by (simp_all add: next_pc_def set_rd_def panic_def setExitCode_def Stop_def split: option.split)

section \<open>Evaluating concrete machines\<close>

lemmas machine_defs = boot_def bare_host_def demo_host_def operands_def LoadFromBytes_def
  Initialize_def SetSystemCall_def zero_vm_def

lemmas fetch_defs = step_def fetch_def slice_range_def uint32LittleEndian_def len_def

lemmas decode_defs = execute_def inst_opcode_def inst_rd_def inst_rs1_def inst_rs2_def
  functionCode3_def functionCode7_def rt_key_def imm_I_def imm_J_def imm_B_def imm_S_def
  imm_U_def set_rd_def next_pc_def Let_def

lemmas syscall_defs = exec_call_def handleSyscall_def GetPointerParam_def setExitCode_def
  Stop_def panic_def

lemmas shift_defs = shiftLeftInt64_def shiftRightInt64_def arithShiftRightInt64_def
  shiftRightInt128_def

lemmas memory_defs = index_memory_def slice_from_def uint16LittleEndian_def
  uint64LittleEndian_def putUint16_def putUint32_def putUint64_def

section \<open>Division and remainder\<close>

lemma rt64_val_DIV:
  "rt64_val RISBEE_OPINST_RT64_DIV x d =
     Inr (if x = INT64_MIN \<and> d = - 1 then INT64_MIN else if d = 0 then - 1 else go_quo x d)"
  by (simp add: rt64_val_def)

lemma rt64_val_REM:
  "rt64_val RISBEE_OPINST_RT64_REM x d =
     Inr (if x = INT64_MIN \<and> d = - 1 then 0 else if d = 0 then x else go_rem x d)"
  by (simp add: rt64_val_def)

text \<open>
  C7.  \<open>DIV\<close> and \<open>REM\<close> (opcode \<open>0x33\<close>, keys \<open>0xC\<close> and \<open>0xE\<close>) with dividend \<open>x\<close> in
  \<open>rs1\<close> and divisor \<open>d\<close> in \<open>rs2\<close>: when \<open>d = 0\<close>, \<open>DIV\<close> yields \<open>-1\<close> and \<open>REM\<close> yields
  \<open>x\<close>; when \<open>x\<close> is \<open>INT64_MIN\<close> and \<open>d = -1\<close>, \<open>DIV\<close> yields \<open>INT64_MIN\<close> and \<open>REM\<close>
  yields 0.  In each case \<open>execute\<close> returns normally and the VM afterwards is the VM
  before with that value in register \<open>rd\<close> (unless \<open>rd\<close> is 0, when the registers are as
  before) and the program counter advanced by 4: memory, exit code, running flag and
  host state are unchanged, so nothing has panicked and the loop goes on to the next
  instruction.
\<close>

theorem C7_div_rem_corner_cases:
  assumes op: "inst_opcode inst = RISBEE_OPINST_RT64"
    and key: "rt_key inst = RISBEE_OPINST_RT64_DIV \<or> rt_key inst = RISBEE_OPINST_RT64_REM"
    and x: "x = Registers s (unat (inst_rs1 inst))"
    and d: "d = Registers s (unat (inst_rs2 inst))"
    and corner: "d = 0 \<or> (x = INT64_MIN \<and> d = - 1)"
  shows "execute h inst s =
           Inr (s\<lparr>Registers :=
                    (if inst_rd inst = 0 then Registers s
                     else (Registers s)
                            (unat (inst_rd inst) :=
                               (if rt_key inst = RISBEE_OPINST_RT64_DIV
                                then (if d = 0 then - 1 else INT64_MIN)
                                else (if d = 0 then x else 0)))),
                  Pc := Pc s + 4\<rparr>)"
proof -
  from key show ?thesis
  proof
    assume k: "rt_key inst = RISBEE_OPINST_RT64_DIV"
    from corner show ?thesis
      by (auto simp add: execute_opcode(5) [OF op] exec_rt64_def k rt64_val_DIV
          x [symmetric] d [symmetric] next_pc_def set_rd_def)
  next
    assume k: "rt_key inst = RISBEE_OPINST_RT64_REM"
    from corner show ?thesis
      by (auto simp add: execute_opcode(5) [OF op] exec_rt64_def k rt64_val_REM
          x [symmetric] d [symmetric] next_pc_def set_rd_def)
  qed
qed

theorem C7_div_rem_witness:
  "inst_opcode 0x0220C1B3 = RISBEE_OPINST_RT64 \<and> rt_key 0x0220C1B3 = RISBEE_OPINST_RT64_DIV
   \<and> inst_opcode 0x0220E1B3 = RISBEE_OPINST_RT64 \<and> rt_key 0x0220E1B3 = RISBEE_OPINST_RT64_REM
   \<and> execute bare_host 0x0220C1B3 (operands 7 0)
       = Inr ((operands 7 0)\<lparr>Registers := (Registers (operands 7 0))(3 := - 1), Pc := 4\<rparr>)
   \<and> execute bare_host 0x0220C1B3 (operands INT64_MIN (- 1))
       = Inr ((operands INT64_MIN (- 1))
               \<lparr>Registers := (Registers (operands INT64_MIN (- 1)))(3 := INT64_MIN),
                Pc := 4\<rparr>)
   \<and> execute bare_host 0x0220E1B3 (operands 7 0)
       = Inr ((operands 7 0)\<lparr>Registers := (Registers (operands 7 0))(3 := 7), Pc := 4\<rparr>)
   \<and> execute bare_host 0x0220E1B3 (operands INT64_MIN (- 1))
       = Inr ((operands INT64_MIN (- 1))
               \<lparr>Registers := (Registers (operands INT64_MIN (- 1)))(3 := 0), Pc := 4\<rparr>)"
proof -
  have d: "inst_opcode 0x0220C1B3 = RISBEE_OPINST_RT64"
    "rt_key 0x0220C1B3 = RISBEE_OPINST_RT64_DIV"
    "inst_rs1 0x0220C1B3 = 1" "inst_rs2 0x0220C1B3 = 2" "inst_rd 0x0220C1B3 = 3"
    by (simp_all add: inst_opcode_def rt_key_def functionCode3_def functionCode7_def
        inst_rs1_def inst_rs2_def inst_rd_def)
  have r: "inst_opcode 0x0220E1B3 = RISBEE_OPINST_RT64"
    "rt_key 0x0220E1B3 = RISBEE_OPINST_RT64_REM"
    "inst_rs1 0x0220E1B3 = 1" "inst_rs2 0x0220E1B3 = 2" "inst_rd 0x0220E1B3 = 3"
    by (simp_all add: inst_opcode_def rt_key_def functionCode3_def functionCode7_def
        inst_rs1_def inst_rs2_def inst_rd_def)
  have regs: "Registers (operands a b) (Suc 0) = a" "Registers (operands a b) 2 = b"
    "Pc (operands a b) = 0" for a b
    by (simp_all add: operands_def zero_vm_def)
  show ?thesis
    using C7_div_rem_corner_cases [of "0x0220C1B3" 7 "operands 7 0" 0 bare_host]
      C7_div_rem_corner_cases [of "0x0220C1B3" INT64_MIN "operands INT64_MIN (- 1)" "- 1"
        bare_host]
      C7_div_rem_corner_cases [of "0x0220E1B3" 7 "operands 7 0" 0 bare_host]
      C7_div_rem_corner_cases [of "0x0220E1B3" INT64_MIN "operands INT64_MIN (- 1)" "- 1"
        bare_host]
    by (simp add: d r regs)
qed

section \<open>Panics\<close>

lemma load_val_invalid:
  "fc3 \<notin> {RISBEE_FC3_LB, RISBEE_FC3_LHW, RISBEE_FC3_LW, RISBEE_FC3_LDW,
           RISBEE_FC3_LBU, RISBEE_FC3_LHU, RISBEE_FC3_LRES} \<Longrightarrow>
   load_val fc3 m addr = Inr (Inl ''Invalid load instruction.'')"
  by (simp add: load_val_def)

lemma store_mem_invalid:
  "fc3 \<notin> {RISBEE_FC3_SB, RISBEE_FC3_SHW, RISBEE_FC3_SW, RISBEE_FC3_SDW} \<Longrightarrow>
   store_mem fc3 m addr val = Inr (Inl ''Invalid store instruction.'')"
  by (simp add: store_mem_def)

lemma imm_val_invalid:
  "functionCode3 inst = RISBEE_FC3_SRLI \<Longrightarrow>
   drop_bit 4 (drop_bit 26 inst AND 0x3F) \<notin> {0x0, 0x1 :: uint32} \<Longrightarrow>
   imm_val inst val = Inl ''Invalid immediate shift instruction.''"
  by (simp add: imm_val_def Let_def)

lemma ialu_val_invalid_shift:
  "functionCode3 inst = RISBEE_FC3_SRAIW \<Longrightarrow>
   drop_bit 5 (functionCode7 inst) \<notin> {0x0, 0x1} \<Longrightarrow>
   ialu_val inst rs2 val = Inl ''Invalid immediate shift instruction.''"
  by (simp add: ialu_val_def Let_def)

lemma ialu_val_invalid:
  "functionCode3 inst \<notin> {RISBEE_FC3_SLLIW, RISBEE_FC3_SRLIW, RISBEE_FC3_SRAIW,
      RISBEE_FC3_SLLI64, RISBEE_FC3_SRLI64, RISBEE_FC3_SRAI64} \<Longrightarrow>
   ialu_val inst rs2 val = Inl ''Invalid immediate instruction.''"
  by (simp add: ialu_val_def Let_def)

lemma rt64_val_invalid:
  "key \<notin> {RISBEE_OPINST_RT64_ADD, RISBEE_OPINST_RT64_SUB, RISBEE_OPINST_RT64_SLL,
       RISBEE_OPINST_RT64_SLT, RISBEE_OPINST_RT64_SLTU, RISBEE_OPINST_RT64_XOR,
       RISBEE_OPINST_RT64_SRL, RISBEE_OPINST_RT64_SRA, RISBEE_OPINST_RT64_OR,
       RISBEE_OPINST_RT64_AND, RISBEE_OPINST_RT64_MUL, RISBEE_OPINST_RT64_MULH,
       RISBEE_OPINST_RT64_MULHSU, RISBEE_OPINST_RT64_MULHU,
       RISBEE_OPINST_RT64_DIV, RISBEE_OPINST_RT64_DIVU, RISBEE_OPINST_RT64_REM,
       RISBEE_OPINST_RT64_REMU} \<Longrightarrow>
   rt64_val key val1 val2 = Inl ''Invalid arith instruction.''"
  by (simp add: rt64_val_def)

lemma rt32_val_invalid:
  "key \<notin> {RISBEE_OPINST_RT32_ADDW, RISBEE_OPINST_RT32_SUBW,
       RISBEE_OPINST_RT32_SLLW, RISBEE_OPINST_RT32_SRLW,
       RISBEE_OPINST_RT32_SRAW, RISBEE_OPINST_RT32_MULW,
       RISBEE_OPINST_RT32_DIVW, RISBEE_OPINST_RT32_DIVUW,
       RISBEE_OPINST_RT32_REMW, RISBEE_OPINST_RT32_REMUW} \<Longrightarrow>
   rt32_val key val1 val2 = Inl ''Invalid store doubleword instruction.''"
  by (simp add: rt32_val_def)

lemma branch_cond_invalid:
  "fc3 \<notin> {RISBEE_FC3_BEQ, RISBEE_FC3_BNE, RISBEE_FC3_BLT, RISBEE_FC3_BGE,
           RISBEE_FC3_BLTU, RISBEE_FC3_BGEU} \<Longrightarrow>
   branch_cond fc3 val1 val2 = Inl ''Invalid branch instruction.''"
  by (simp add: branch_cond_def)

lemma execute_panics:
  assumes pm: "panic_message h inst s = Some message"
  shows "\<exists>rd v. execute h inst s = Inr (next_pc (set_rd rd v (panic h message s)))"
proof (cases inst rule: opcode_cases)
  case load
  with pm have "functionCode3 inst \<notin> {RISBEE_FC3_LB, RISBEE_FC3_LHW, RISBEE_FC3_LW,
      RISBEE_FC3_LDW, RISBEE_FC3_LBU, RISBEE_FC3_LHU, RISBEE_FC3_LRES}"
    and "message = ''Invalid load instruction.''"
    by (simp_all add: panic_message_def Let_def split: if_splits)
  with load show ?thesis
    by (auto simp add: execute_opcode exec_load_def Let_def load_val_invalid)
next
  case store
  with pm have "functionCode3 inst \<notin> {RISBEE_FC3_SB, RISBEE_FC3_SHW, RISBEE_FC3_SW,
      RISBEE_FC3_SDW}"
    and "message = ''Invalid store instruction.''"
    by (simp_all add: panic_message_def Let_def split: if_splits)
  with store have "execute h inst s = Inr (next_pc (set_rd 0 0 (panic h message s)))"
    by (simp add: execute_opcode exec_store_def Let_def store_mem_invalid)
  then show ?thesis by blast
next
  case imm
  with pm have "functionCode3 inst = RISBEE_FC3_SRLI"
    and "drop_bit 4 (drop_bit 26 inst AND 0x3F) \<notin> {0x0, 0x1 :: uint32}"
    and "message = ''Invalid immediate shift instruction.''"
    by (simp_all add: panic_message_def Let_def split: if_splits)
  with imm show ?thesis
    by (auto simp add: execute_opcode exec_imm_def Let_def imm_val_invalid)
next
  case ialu
  show ?thesis
  proof (cases "functionCode3 inst = RISBEE_FC3_SRAIW")
    case True
    with pm ialu have "drop_bit 5 (functionCode7 inst) \<notin> {0x0, 0x1}"
      and "message = ''Invalid immediate shift instruction.''"
      by (simp_all add: panic_message_def Let_def split: if_splits)
    with ialu True show ?thesis
      by (auto simp add: execute_opcode exec_ialu_def Let_def ialu_val_invalid_shift)
  next
    case False
    with pm ialu have "functionCode3 inst \<notin> {RISBEE_FC3_SLLIW, RISBEE_FC3_SRLIW,
        RISBEE_FC3_SRAIW, RISBEE_FC3_SLLI64, RISBEE_FC3_SRLI64, RISBEE_FC3_SRAI64}"
      and "message = ''Invalid immediate instruction.''"
      by (simp_all add: panic_message_def Let_def split: if_splits)
    with ialu show ?thesis
      by (auto simp add: execute_opcode exec_ialu_def Let_def ialu_val_invalid)
  qed
next
  case rt64
  with pm have "rt64_val (rt_key inst) (Registers s (unat (inst_rs1 inst)))
      (Registers s (unat (inst_rs2 inst))) = Inl ''Invalid arith instruction.''"
    and "message = ''Invalid arith instruction.''"
    by (simp_all add: panic_message_def Let_def rt64_val_invalid split: if_splits)
  with rt64 show ?thesis
    by (auto simp add: execute_opcode exec_rt64_def Let_def)
next
  case rt32
  with pm have "rt32_val (rt_key inst) (Registers s (unat (inst_rs1 inst)))
      (Registers s (unat (inst_rs2 inst))) = Inl ''Invalid store doubleword instruction.''"
    and "message = ''Invalid store doubleword instruction.''"
    by (simp_all add: panic_message_def Let_def rt32_val_invalid split: if_splits)
  with rt32 show ?thesis
    by (auto simp add: execute_opcode exec_rt32_def Let_def)
next
  case lui
  with pm show ?thesis by (simp add: panic_message_def Let_def)
next
  case auipc
  with pm show ?thesis by (simp add: panic_message_def Let_def)
next
  case jal
  with pm show ?thesis by (simp add: panic_message_def Let_def)
next
  case jalr
  with pm show ?thesis by (simp add: panic_message_def Let_def)
next
  case fence
  with pm show ?thesis by (simp add: panic_message_def Let_def)
next
  case branch
  with pm have "functionCode3 inst \<notin> {RISBEE_FC3_BEQ, RISBEE_FC3_BNE, RISBEE_FC3_BLT,
      RISBEE_FC3_BGE, RISBEE_FC3_BLTU, RISBEE_FC3_BGEU}"
    and "message = ''Invalid branch instruction.''"
    by (simp_all add: panic_message_def Let_def split: if_splits)
  with branch have "execute h inst s = Inr (next_pc (set_rd 0 0 (panic h message s)))"
    by (simp add: execute_opcode exec_branch_def Let_def branch_cond_invalid)
  then show ?thesis by blast
next
  case call
  show ?thesis
  proof (cases "drop_bit 20 inst AND 0xFFF = (0 :: uint32)")
    case True
    with pm call have "Registers s 17 \<noteq> 0" and "SysCalls h (Registers s 17) = None"
      and "message = ''Invalid system call.''"
      by (simp_all add: panic_message_def Let_def split: if_splits)
    with call True have "execute h inst s = Inr (next_pc (set_rd 10 0 (panic h message s)))"
      by (simp add: execute_opcode exec_call_def Let_def handleSyscall_def set_rd_def)
    then show ?thesis by blast
  next
    case False
    with pm call have "drop_bit 20 inst AND 0xFFF \<noteq> (1 :: uint32)"
      and "message = ''Invalid system instruction.''"
      by (simp_all add: panic_message_def Let_def split: if_splits)
    with call False have "execute h inst s = Inr (next_pc (set_rd 0 0 (panic h message s)))"
      by (simp add: execute_opcode exec_call_def Let_def)
    then show ?thesis by blast
  qed
next
  case unknown
  with pm have "message = ''Invalid opcode instruction.''"
    by (simp add: panic_message_def Let_def split: if_splits)
  with unknown have "execute h inst s = Inr (next_pc (set_rd 0 0 (panic h message s)))"
    by (simp add: execute_unknown_opcode)
  then show ?thesis by blast
qed

text \<open>
  C8.  When the loop of \<open>Run\<close> stands at an instruction on which \<open>execute\<close> calls
  \<open>vm.panic\<close> (unknown opcode, unknown function code within a known opcode, or an \<open>ECALL\<close>
  with a non-zero code that is not registered), the iteration ends with exit code \<open>-1\<close>
  and the running flag false, whether or not a panic callback is registered; the callback,
  if registered, has been applied once, to the message; and the loop returns with exactly
  that state, so no further instruction is executed in this run.
\<close>

theorem C8_panic_halts:
  assumes "Running s" and "fetch s = Inr inst"
    and "panic_message h inst s = Some message"
  shows "\<exists>s1. execute h inst s = Inr s1
           \<and> ExitCode s1 = - 1 \<and> \<not> Running s1
           \<and> Host s1 = (case PanicCallback h of
                          None \<Rightarrow> Host s
                        | Some cb \<Rightarrow> cb message (Host s))
           \<and> run_loop h s = Some (Inr s1)"
proof -
  from assms(3) obtain rd v
    where ex: "execute h inst s = Inr (next_pc (set_rd rd v (panic h message s)))"
    using execute_panics by blast
  let ?s1 = "next_pc (set_rd rd v (panic h message s))"
  have "run_loop h ?s1 = Some (Inr ?s1)"
    by (subst run_loop.simps) (simp add: after_panic)
  with assms(1,2) ex have "run_loop h s = Some (Inr ?s1)"
    by (subst run_loop.simps) (simp add: step_def)
  with ex show ?thesis by (auto simp add: after_panic)
qed

theorem C8_panic_halts_witness:
  "Running ((boot [0xFF, 0xFF, 0xFF, 0xFF])\<lparr>Running := True\<rparr>)
   \<and> fetch ((boot [0xFF, 0xFF, 0xFF, 0xFF])\<lparr>Running := True\<rparr>) = Inr 0xFFFFFFFF
   \<and> panic_message demo_host 0xFFFFFFFF ((boot [0xFF, 0xFF, 0xFF, 0xFF])\<lparr>Running := True\<rparr>)
       = Some ''Invalid opcode instruction.''
   \<and> (\<exists>s1. run_loop demo_host ((boot [0xFF, 0xFF, 0xFF, 0xFF])\<lparr>Running := True\<rparr>)
              = Some (Inr s1)
            \<and> ExitCode s1 = - 1 \<and> \<not> Running s1
            \<and> Host s1 = [Panicked ''Invalid opcode instruction.''])"
proof -
  let ?s = "(boot [0xFF, 0xFF, 0xFF, 0xFF])\<lparr>Running := True\<rparr>"
  have a: "Running ?s" by simp
  have b: "fetch ?s = Inr 0xFFFFFFFF"
    by (simp add: machine_defs fetch_defs)
  have c: "panic_message demo_host 0xFFFFFFFF ?s = Some ''Invalid opcode instruction.''"
    by (simp add: panic_message_def inst_opcode_def Let_def)
  have d: "PanicCallback demo_host = Some on_panic" "Host ?s = []"
    by (simp_all add: machine_defs)
  from C8_panic_halts [OF a b c] a b c show ?thesis
    by (auto simp add: d on_panic_def)
qed

section \<open>Register 0\<close>

lemma handleSyscall_zero:
  assumes "\<forall>code fn t. SysCalls h code = Some fn \<longrightarrow> Registers (snd (fn t)) 0 = Registers t 0"
    and "handleSyscall h code s = Inr (ret, s1)"
  shows "Registers s1 0 = Registers s 0"
proof (cases "code = 0")
  case True
  with assms(2) show ?thesis
    by (auto simp add: handleSyscall_def GetPointerParam_def setExitCode_def Stop_def Let_def
        split: sum.splits option.splits)
next
  case False
  show ?thesis
  proof (cases "SysCalls h code")
    case None
    with False assms(2) show ?thesis by (auto simp add: handleSyscall_def)
  next
    case (Some fn)
    with False assms(2) have "fn s = (ret, s1)" by (simp add: handleSyscall_def)
    moreover from assms(1) Some have "Registers (snd (fn s)) 0 = Registers s 0" by blast
    ultimately show ?thesis by simp
  qed
qed

lemma execute_zero:
  assumes handlers: "\<forall>code fn t. SysCalls h code = Some fn \<longrightarrow> Registers (snd (fn t)) 0 = Registers t 0"
    and ex: "execute h inst s = Inr s1"
  shows "Registers s1 0 = Registers s 0"
proof -
  have call: "exec_call h inst s = Inr s1 \<Longrightarrow> Registers s1 0 = Registers s 0"
    using handleSyscall_zero [OF handlers]
    by (fastforce simp add: exec_call_def Let_def split: if_splits sum.splits prod.splits)
  have others:
    "exec_load h inst rd rs1 s = Inr s1 \<Longrightarrow> Registers s1 0 = Registers s 0"
    "exec_store h inst rs1 rs2 s = Inr s1 \<Longrightarrow> Registers s1 0 = Registers s 0"
    "exec_imm h inst rd rs1 s = Inr s1 \<Longrightarrow> Registers s1 0 = Registers s 0"
    "exec_ialu h inst rd rs1 rs2 s = Inr s1 \<Longrightarrow> Registers s1 0 = Registers s 0"
    "exec_rt64 h inst rd rs1 rs2 s = Inr s1 \<Longrightarrow> Registers s1 0 = Registers s 0"
    "exec_rt32 h inst rd rs1 rs2 s = Inr s1 \<Longrightarrow> Registers s1 0 = Registers s 0"
    "exec_jal inst rd s = Inr s1 \<Longrightarrow> Registers s1 0 = Registers s 0"
    "exec_jalr inst rd rs1 s = Inr s1 \<Longrightarrow> Registers s1 0 = Registers s 0"
    "exec_branch h inst rs1 rs2 s = Inr s1 \<Longrightarrow> Registers s1 0 = Registers s 0"
    for rd rs1 rs2
    by (auto simp add: exec_load_def exec_store_def exec_imm_def exec_ialu_def exec_rt64_def
        exec_rt32_def exec_jal_def exec_jalr_def exec_branch_def Let_def
        split: sum.splits if_splits)
  from ex show ?thesis
    by (auto simp add: execute_def Let_def call others split: if_splits)
qed

text \<open>
  C9, as stated, fails: a syscall handler is handed the VM and can write register 0
  itself; nothing in \<open>execute\<close> restores it.  With such a handler registered as syscall
  1, the program \<open>ADDI a7, x0, 1; ECALL\<close> reaches an instruction boundary at which
  register 0 reads 7.
\<close>

theorem C9_handler_writes_register_0_counterexample:
  "Registers ((boot [0x93, 0x08, 0x10, 0x00, 0x73, 0x00, 0x00, 0x00])\<lparr>Running := True\<rparr>) 0 = 0
   \<and> boundary clobber_host
        ((boot [0x93, 0x08, 0x10, 0x00, 0x73, 0x00, 0x00, 0x00])\<lparr>Running := True\<rparr>)
        ((boot [0x93, 0x08, 0x10, 0x00, 0x73, 0x00, 0x00, 0x00])
           \<lparr>Running := True, Pc := 0x1008,
            Registers := (Registers (boot [0x93, 0x08, 0x10, 0x00, 0x73, 0x00, 0x00, 0x00]))
                           (17 := 1, 0 := 7, 10 := 0)\<rparr>)
   \<and> Registers
        ((boot [0x93, 0x08, 0x10, 0x00, 0x73, 0x00, 0x00, 0x00])
           \<lparr>Running := True, Pc := 0x1008,
            Registers := (Registers (boot [0x93, 0x08, 0x10, 0x00, 0x73, 0x00, 0x00, 0x00]))
                           (17 := 1, 0 := 7, 10 := 0)\<rparr>) 0 = 7"
proof -
  let ?s0 = "(boot [0x93, 0x08, 0x10, 0x00, 0x73, 0x00, 0x00, 0x00])\<lparr>Running := True\<rparr>"
  let ?s1 = "(boot [0x93, 0x08, 0x10, 0x00, 0x73, 0x00, 0x00, 0x00])
           \<lparr>Running := True, Pc := 0x1004,
            Registers := (Registers (boot [0x93, 0x08, 0x10, 0x00, 0x73, 0x00, 0x00, 0x00]))
                           (17 := 1)\<rparr>"
  let ?s2 = "(boot [0x93, 0x08, 0x10, 0x00, 0x73, 0x00, 0x00, 0x00])
           \<lparr>Running := True, Pc := 0x1008,
            Registers := (Registers (boot [0x93, 0x08, 0x10, 0x00, 0x73, 0x00, 0x00, 0x00]))
                           (17 := 1, 0 := 7, 10 := 0)\<rparr>"
  have 1: "step clobber_host ?s0 = Inr ?s1"
    by (simp add: machine_defs fetch_defs decode_defs exec_imm_def imm_val_def
        clobber_host_def)
  have 2: "step clobber_host ?s1 = Inr ?s2"
    by (simp add: machine_defs fetch_defs decode_defs syscall_defs clobber_host_def
        clobber_syscall_def)
  have r: "Running ?s0" "Running ?s1" by simp_all
  have "boundary clobber_host ?s0 ?s1"
    by (rule boundary.iterate [OF boundary.start r(1) 1])
  then have "boundary clobber_host ?s0 ?s2"
    by (rule boundary.iterate [OF _ r(2) 2])
  then show ?thesis by (simp add: machine_defs)
qed

text \<open>
  C9, amended.  Register 0 reads as 0 at every instruction boundary of a run that starts
  with register 0 equal to 0, provided the syscall handlers of the embedder leave
  register 0 alone: no case of \<open>execute\<close> writes it (every write to \<open>rd\<close> is guarded by
  \<open>rd != 0\<close>, so a write with \<open>rd = 0\<close> is dropped, and the write-back of \<open>ECALL\<close> goes to
  register 10).
\<close>

theorem C9_register_zero:
  assumes handlers: "\<forall>code fn t. SysCalls h code = Some fn \<longrightarrow> Registers (snd (fn t)) 0 = Registers t 0"
    and zero: "Registers s0 0 = 0"
    and reach: "boundary h s0 s"
  shows "Registers s 0 = 0"
  using reach
proof (induction rule: boundary.induct)
  case start
  show ?case by (rule zero)
next
  case (iterate s s1)
  from \<open>step h s = Inr s1\<close> obtain inst where "execute h inst s = Inr s1"
    by (auto simp add: step_def split: sum.splits)
  with handlers have "Registers s1 0 = Registers s 0" by (rule execute_zero)
  with iterate.IH show ?case by simp
qed

theorem C9_register_zero_witness:
  "Registers ((boot [0x13, 0x00, 0x50, 0x00])\<lparr>Running := True\<rparr>) 0 = 0
   \<and> boundary demo_host ((boot [0x13, 0x00, 0x50, 0x00])\<lparr>Running := True\<rparr>)
        ((boot [0x13, 0x00, 0x50, 0x00])\<lparr>Running := True, Pc := 0x1004\<rparr>)
   \<and> Registers ((boot [0x13, 0x00, 0x50, 0x00])\<lparr>Running := True, Pc := 0x1004\<rparr>) 0 = 0"
proof -
  let ?s0 = "(boot [0x13, 0x00, 0x50, 0x00])\<lparr>Running := True\<rparr>"
  let ?s1 = "(boot [0x13, 0x00, 0x50, 0x00])\<lparr>Running := True, Pc := 0x1004\<rparr>"
  have a: "\<forall>code fn t. SysCalls demo_host code = Some fn
       \<longrightarrow> Registers (snd (fn t)) 0 = Registers t 0"
    by (simp add: machine_defs print_syscall_def)
  have b: "Registers ?s0 0 = 0"
    by (simp add: machine_defs)
  have "step demo_host ?s0 = Inr ?s1"
    by (simp add: machine_defs fetch_defs decode_defs exec_imm_def imm_val_def)
  then have c: "boundary demo_host ?s0 ?s1"
    by (rule boundary.iterate [OF boundary.start, rotated]) simp
  from C9_register_zero [OF a b c] b c show ?thesis by simp
qed

section \<open>Parity of the program counter\<close>

lemma even_unat_bit0: "even (unat (w :: uint64)) \<longleftrightarrow> \<not> bit w 0"
proof -
  have "bit (unat w) 0 = bit w 0" by (simp add: bit_unsigned_iff)
  then show ?thesis by (simp add: bit_0)
qed

lemma imm_J_even: "\<not> bit (imm_J inst) 0"
  by (simp add: imm_J_def Let_def bit_simps)

lemma imm_B_even: "\<not> bit (imm_B inst) 0"
  by (simp add: imm_B_def Let_def bit_simps)

lemma bit0_add_even: "\<not> bit (v :: uint64) 0 \<Longrightarrow> bit (w + v) 0 = bit w 0"
  by (simp add: bit_0)

lemma and_minus2_even: "\<not> bit ((w :: uint64) AND - 2) 0"
  by (simp add: bit_simps)

lemma Pc_next_pc_bit0 [simp]: "bit (Pc (next_pc s)) 0 = bit (Pc s) 0"
  by (simp add: next_pc_def bit_0)

lemma handleSyscall_parity:
  assumes "\<forall>code fn t. SysCalls h code = Some fn \<longrightarrow> even (unat (Pc t)) \<longrightarrow> even (unat (Pc (snd (fn t))))"
    and "handleSyscall h code s = Inr (ret, s1)"
    and "\<not> bit (Pc s) 0"
  shows "\<not> bit (Pc s1) 0"
proof (cases "code = 0")
  case True
  with assms(2,3) show ?thesis
    by (auto simp add: handleSyscall_def GetPointerParam_def setExitCode_def Stop_def Let_def
        split: sum.splits option.splits)
next
  case False
  show ?thesis
  proof (cases "SysCalls h code")
    case None
    with False assms(2,3) show ?thesis by (auto simp add: handleSyscall_def)
  next
    case (Some fn)
    with False assms(2) have "fn s = (ret, s1)" by (simp add: handleSyscall_def)
    moreover from assms(1,3) Some have "even (unat (Pc (snd (fn s))))"
      by (simp add: even_unat_bit0)
    ultimately show ?thesis by (simp add: even_unat_bit0)
  qed
qed

lemma execute_parity:
  assumes handlers: "\<forall>code fn t. SysCalls h code = Some fn \<longrightarrow> even (unat (Pc t)) \<longrightarrow> even (unat (Pc (snd (fn t))))"
    and ex: "execute h inst s = Inr s1"
    and ev: "\<not> bit (Pc s) 0"
  shows "\<not> bit (Pc s1) 0"
proof (cases inst rule: opcode_cases)
  case call
  with ex have "exec_call h inst s = Inr s1" by (simp add: execute_opcode)
  then show ?thesis
    using handleSyscall_parity [OF handlers _ ev] ev
    by (fastforce simp add: exec_call_def Let_def split: if_splits sum.splits prod.splits)
next
  case jal
  with ex ev show ?thesis
    by (auto simp add: execute_opcode exec_jal_def Let_def bit0_add_even imm_J_even)
next
  case jalr
  with ex show ?thesis
    by (auto simp add: execute_opcode exec_jalr_def Let_def and_minus2_even)
next
  case branch
  with ex ev show ?thesis
    by (auto simp add: execute_opcode exec_branch_def Let_def bit0_add_even imm_B_even
        split: sum.splits if_splits)
next
  case unknown
  with ex ev show ?thesis
    by (auto simp add: execute_unknown_opcode)
qed (use ex ev in \<open>auto simp add: execute_opcode exec_load_def exec_store_def exec_imm_def
      exec_ialu_def exec_rt64_def exec_rt32_def Let_def split: sum.splits\<close>)

text \<open>
  C6, as stated, fails: a \<open>JAL\<close> whose immediate is 2, loaded at \<open>0x1000\<close>, takes the program
  counter to \<open>0x1002\<close>, which is 2 modulo 4.
\<close>

theorem C6_pc_multiple_of_4_counterexample:
  "Pc (boot [0x6F, 0x00, 0x20, 0x00]) = 0x1000
   \<and> boundary bare_host ((boot [0x6F, 0x00, 0x20, 0x00])\<lparr>Running := True\<rparr>)
        ((boot [0x6F, 0x00, 0x20, 0x00])\<lparr>Running := True, Pc := 0x1002\<rparr>)
   \<and> unat (Pc ((boot [0x6F, 0x00, 0x20, 0x00])\<lparr>Running := True, Pc := 0x1002\<rparr>)) mod 4 = 2"
proof -
  have "step bare_host ((boot [0x6F, 0x00, 0x20, 0x00])\<lparr>Running := True\<rparr>)
     = Inr ((boot [0x6F, 0x00, 0x20, 0x00])\<lparr>Running := True, Pc := 0x1002\<rparr>)"
    by (simp add: machine_defs fetch_defs decode_defs exec_jal_def)
  then have "boundary bare_host ((boot [0x6F, 0x00, 0x20, 0x00])\<lparr>Running := True\<rparr>)
        ((boot [0x6F, 0x00, 0x20, 0x00])\<lparr>Running := True, Pc := 0x1002\<rparr>)"
    by (rule boundary.iterate [OF boundary.start, rotated]) simp
  then show ?thesis by (simp add: machine_defs)
qed

text \<open>
  C6, amended.  The program counter is even at every instruction boundary of a run that
  starts at an even address (\<open>Initialize\<close> sets \<open>0x1000\<close>): each iteration adds 4, or adds
  the immediate of a \<open>JAL\<close> or of a taken branch, whose bit 0 is clear, or assigns the
  target of a \<open>JALR\<close> with bit 0 cleared.  Syscall handlers are assumed to keep an even
  program counter even.
\<close>

theorem C6_pc_even:
  assumes handlers: "\<forall>code fn t. SysCalls h code = Some fn \<longrightarrow> even (unat (Pc t)) \<longrightarrow> even (unat (Pc (snd (fn t))))"
    and start: "even (unat (Pc s0))"
    and reach: "boundary h s0 s"
  shows "even (unat (Pc s))"
  using reach
proof (induction rule: boundary.induct)
  case start
  show ?case by (rule assms(2))
next
  case (iterate s s1)
  from \<open>step h s = Inr s1\<close> obtain inst where "execute h inst s = Inr s1"
    by (auto simp add: step_def split: sum.splits)
  moreover from iterate.IH have "\<not> bit (Pc s) 0" by (simp add: even_unat_bit0)
  ultimately have "\<not> bit (Pc s1) 0" by (rule execute_parity [OF handlers])
  then show ?case by (simp add: even_unat_bit0)
qed

theorem C6_pc_even_witness:
  "even (unat (Pc ((boot [0x6F, 0x00, 0x20, 0x00])\<lparr>Running := True\<rparr>)))
   \<and> boundary demo_host ((boot [0x6F, 0x00, 0x20, 0x00])\<lparr>Running := True\<rparr>)
        ((boot [0x6F, 0x00, 0x20, 0x00])\<lparr>Running := True, Pc := 0x1002\<rparr>)
   \<and> even (unat (Pc ((boot [0x6F, 0x00, 0x20, 0x00])\<lparr>Running := True, Pc := 0x1002\<rparr>)))"
proof -
  let ?s0 = "(boot [0x6F, 0x00, 0x20, 0x00])\<lparr>Running := True\<rparr>"
  let ?s1 = "(boot [0x6F, 0x00, 0x20, 0x00])\<lparr>Running := True, Pc := 0x1002\<rparr>"
  have a: "\<forall>code fn t. SysCalls demo_host code = Some fn
       \<longrightarrow> even (unat (Pc t)) \<longrightarrow> even (unat (Pc (snd (fn t))))"
    by (simp add: machine_defs print_syscall_def)
  have b: "even (unat (Pc ?s0))"
    by (simp add: machine_defs)
  have "step demo_host ?s0 = Inr ?s1"
    by (simp add: machine_defs fetch_defs decode_defs exec_jal_def)
  then have c: "boundary demo_host ?s0 ?s1"
    by (rule boundary.iterate [OF boundary.start, rotated]) simp
  from C6_pc_even [OF a b c] b c show ?thesis by simp
qed

section \<open>The exit syscall\<close>

text \<open>
  C1 says that the exit syscall stops the VM whether or not an exit callback is
  registered.  In \<open>handleSyscall\<close> the call \<open>vm.Stop()\<close> stands inside the test
  \<open>vm.ExitCallback != nil\<close>.  The program \<open>ADDI a0, x0, 42; ADDI a7, x0, 0; ECALL\<close>:
  with the callback registered, \<open>Run\<close> returns with exit code 42, the callback told 42
  once; a single \<open>ECALL\<close> with 42 in register 10 and no callback sets the exit code but
  leaves the running flag true; and so with no callback \<open>Run\<close> goes on past the \<open>ECALL\<close>
  into the zero bytes behind the program, panics on the opcode 0 and returns with exit
  code \<open>-1\<close>.
\<close>

theorem C1_exit_without_callback_keeps_running:
  "(\<exists>s1. Run demo_host
              (boot [0x13, 0x05, 0xA0, 0x02, 0x93, 0x08, 0x00, 0x00, 0x73, 0x00, 0x00, 0x00])
            = Some (Inr s1)
          \<and> GetExitCode s1 = 42 \<and> \<not> IsRunning s1 \<and> Host s1 = [Exited 42]
          \<and> Pc s1 = 0x100C)
   \<and> (\<exists>s1. step bare_host
              ((boot [0x73, 0x00, 0x00, 0x00])
                 \<lparr>Running := True,
                  Registers := (Registers (boot [0x73, 0x00, 0x00, 0x00]))(10 := 42)\<rparr>)
            = Inr s1
          \<and> ExitCode s1 = 42 \<and> Running s1 \<and> Pc s1 = 0x1004)
   \<and> (\<exists>s1. Run bare_host
              (boot [0x13, 0x05, 0xA0, 0x02, 0x93, 0x08, 0x00, 0x00, 0x73, 0x00, 0x00, 0x00])
            = Some (Inr s1)
          \<and> GetExitCode s1 = - 1 \<and> \<not> IsRunning s1 \<and> Host s1 = []
          \<and> Pc s1 = 0x1010)"
  by (simp add: Run_def run_loop.simps machine_defs fetch_defs decode_defs exec_imm_def
      imm_val_def syscall_defs GetExitCode_def IsRunning_def on_exit_def)

section \<open>Shifts, high multiplication and the word immediates\<close>

text \<open>
  C2 says that \<open>SLL\<close>, \<open>SRL\<close> and \<open>SRA\<close> shift by the low six bits of \<open>rs2\<close>.  The code
  masks \<open>rs2\<close> with \<open>0x1F\<close>: with 32 in \<open>rs2\<close> it shifts by 0.  Register 3 after
  \<open>SLL x3, x1, x2\<close>, \<open>SRL x3, x1, x2\<close> and \<open>SRA x3, x1, x2\<close>, beside the value that the
  six-bit amount gives.
\<close>

theorem C2_shift_amount_masked_to_5_bits:
  "(\<exists>s1. execute bare_host 0x002091B3 (operands 1 32) = Inr s1 \<and> Registers s1 3 = 1)
   \<and> spec_sll 1 32 = 0x100000000
   \<and> (\<exists>s1. execute bare_host 0x0020D1B3 (operands INT64_MIN 32) = Inr s1
          \<and> Registers s1 3 = INT64_MIN)
   \<and> spec_srl INT64_MIN 32 = 0x80000000
   \<and> (\<exists>s1. execute bare_host 0x4020D1B3 (operands INT64_MIN 32) = Inr s1
          \<and> Registers s1 3 = INT64_MIN)
   \<and> spec_sra INT64_MIN 32 = 0xFFFFFFFF80000000"
  by (simp add: execute_def inst_opcode_def inst_rd_def inst_rs1_def inst_rs2_def
      exec_rt64_def rt_key_def functionCode3_def functionCode7_def rt64_val_def shift_defs
      operands_def zero_vm_def spec_sll_def spec_srl_def spec_sra_def Let_def next_pc_def
      set_rd_def)

text \<open>
  C3 says that \<open>MULH\<close>, \<open>MULHSU\<close> and \<open>MULHU\<close> yield the high 64 bits of the 128-bit
  product.  The code multiplies in 64 bits and shifts the low half right by 64, which
  is 0 whatever the operands.  With \<open>2^32\<close> in both operands the high half is 1;
  register 3, which held 5, holds 0 after each of the three instructions.
\<close>

theorem C3_multiply_high_is_zero:
  "rt64_val RISBEE_OPINST_RT64_MULH a b = Inr 0
   \<and> rt64_val RISBEE_OPINST_RT64_MULHSU a b = Inr 0
   \<and> rt64_val RISBEE_OPINST_RT64_MULHU a b = Inr 0
   \<and> (\<exists>s1. execute bare_host 0x022091B3
               ((operands 0x100000000 0x100000000)
                  \<lparr>Registers := (Registers (operands 0x100000000 0x100000000))(3 := 5)\<rparr>)
             = Inr s1 \<and> Registers s1 3 = 0)
   \<and> (\<exists>s1. execute bare_host 0x0220A1B3
               ((operands 0x100000000 0x100000000)
                  \<lparr>Registers := (Registers (operands 0x100000000 0x100000000))(3 := 5)\<rparr>)
             = Inr s1 \<and> Registers s1 3 = 0)
   \<and> (\<exists>s1. execute bare_host 0x0220B1B3
               ((operands 0x100000000 0x100000000)
                  \<lparr>Registers := (Registers (operands 0x100000000 0x100000000))(3 := 5)\<rparr>)
             = Inr s1 \<and> Registers s1 3 = 0)
   \<and> spec_mulh 0x100000000 0x100000000 = 1
   \<and> spec_mulhsu 0x100000000 0x100000000 = 1
   \<and> spec_mulhu 0x100000000 0x100000000 = 1"
  by (simp add: execute_def inst_opcode_def inst_rd_def inst_rs1_def inst_rs2_def
      exec_rt64_def rt_key_def functionCode3_def functionCode7_def rt64_val_def shift_defs
      operands_def zero_vm_def spec_mulh_def spec_mulhsu_def spec_mulhu_def Let_def
      next_pc_def set_rd_def)

text \<open>
  C4 says that \<open>ADDIW\<close>, \<open>SLLIW\<close>, \<open>SRLIW\<close> and \<open>SRAIW\<close> compute on the low 32 bits and
  sign-extend the 32-bit result.  The code adds and shifts in 64 bits and never
  truncates.  Register 3 after \<open>ADDIW x3, x1, 1\<close>, \<open>SLLIW x3, x1, 1\<close>, \<open>SRLIW x3, x1, 1\<close>
  and \<open>SRAIW x3, x1, 1\<close>, beside the sign-extended 32-bit result.
\<close>

theorem C4_word_immediates_not_truncated:
  "(\<exists>s1. execute bare_host 0x0010819B (operands 0x7FFFFFFF 0) = Inr s1
          \<and> Registers s1 3 = 0x80000000)
   \<and> spec_addiw 0x7FFFFFFF 1 = 0xFFFFFFFF80000000
   \<and> (\<exists>s1. execute bare_host 0x0010919B (operands 0x40000000 0) = Inr s1
          \<and> Registers s1 3 = 0x80000000)
   \<and> spec_slliw 0x40000000 1 = 0xFFFFFFFF80000000
   \<and> (\<exists>s1. execute bare_host 0x0010D19B (operands 0x100000000 0) = Inr s1
          \<and> Registers s1 3 = 0x80000000)
   \<and> spec_srliw 0x100000000 1 = 0
   \<and> (\<exists>s1. execute bare_host 0x4010D19B (operands 0x80000000 0) = Inr s1
          \<and> Registers s1 3 = 0x40000000)
   \<and> spec_sraiw 0x80000000 1 = 0xFFFFFFFFC0000000"
  by (simp add: execute_def inst_opcode_def inst_rd_def inst_rs1_def inst_rs2_def
      exec_ialu_def ialu_val_def imm_I_def functionCode3_def functionCode7_def shift_defs
      operands_def zero_vm_def spec_addiw_def spec_slliw_def spec_srliw_def spec_sraiw_def
      Let_def next_pc_def set_rd_def)

section \<open>Memory accesses out of range\<close>

text \<open>
  C5 says that an access of width \<open>w\<close> at an address \<open>a\<close> with \<open>a + w > 65536\<close> ends in
  \<open>vm.panic\<close>: callback, exit code \<open>-1\<close>, running flag false.  The code never calls
  \<open>vm.panic\<close> for an address.  \<open>LW x5, 0(x1)\<close> at address 65534 reads 0, although both
  bytes there are \<open>0xFF\<close>, and \<open>SW x2, 0(x1)\<close> at 65534 writes nothing; in both cases the
  VM keeps running with exit code 0 and the panic callback is not called.  \<open>LB\<close> at
  address 65536, and the fetch at program counter 65534, end in a run-time panic of Go,
  which leaves the VM's exit code and running flag as they were and calls no callback.
\<close>

theorem C5_out_of_range_access_is_no_vm_panic:
  "(\<exists>s1. step demo_host
              ((boot [0x83, 0xA2, 0x00, 0x00])
                 \<lparr>Running := True,
                  Memory := (Memory (boot [0x83, 0xA2, 0x00, 0x00]))
                              (65534 := 0xFF, 65535 := 0xFF),
                  Registers := (Registers (boot [0x83, 0xA2, 0x00, 0x00]))
                                 (1 := 65534, 5 := 0x55)\<rparr>)
            = Inr s1
          \<and> Registers s1 5 = 0 \<and> Running s1 \<and> ExitCode s1 = 0 \<and> Host s1 = []
          \<and> Pc s1 = 0x1004)
   \<and> (\<exists>s1. step demo_host
              ((boot [0x23, 0xA0, 0x20, 0x00])
                 \<lparr>Running := True,
                  Registers := (Registers (boot [0x23, 0xA0, 0x20, 0x00]))
                                 (1 := 65534, 2 := - 1)\<rparr>)
            = Inr s1
          \<and> Memory s1 = Memory (boot [0x23, 0xA0, 0x20, 0x00])
          \<and> Running s1 \<and> ExitCode s1 = 0 \<and> Host s1 = [] \<and> Pc s1 = 0x1004)
   \<and> step demo_host
         ((boot [0x83, 0x82, 0x00, 0x00])
            \<lparr>Running := True,
             Registers := (Registers (boot [0x83, 0x82, 0x00, 0x00]))(1 := 65536)\<rparr>)
       = Inl IndexOutOfRange
   \<and> step demo_host ((boot [0x13, 0x00, 0x00, 0x00])\<lparr>Running := True, Pc := 0xFFFE\<rparr>)
       = Inl SliceBoundsOutOfRange"
  by (simp add: machine_defs fetch_defs decode_defs exec_load_def load_val_def
      exec_store_def store_mem_def memory_defs)

section \<open>Loading a program\<close>

text \<open>
  C10.  \<open>LoadFromBytes\<close> returns \<open>false\<close> exactly when the payload is empty or longer than
  \<open>65536 - 4096\<close> bytes, and then the VM is exactly as before the call: memory, all
  registers, program counter, exit code and running flag.  Register 2 is assigned 65536
  on the path that returns \<open>true\<close>.
\<close>

theorem C10_load_failure_changes_nothing:
  "(\<not> fst (LoadFromBytes Data s)
      \<longleftrightarrow> Data = [] \<or> length Data > RISBEE_STACK_SIZE - 4096)
   \<and> (\<not> fst (LoadFromBytes Data s) \<longrightarrow> snd (LoadFromBytes Data s) = s)
   \<and> (fst (LoadFromBytes Data s) \<longrightarrow> Registers (snd (LoadFromBytes Data s)) 2 = 65536)"
  by (simp add: LoadFromBytes_def Let_def)

theorem C10_load_failure_witness:
  "\<not> fst (LoadFromBytes [] (zero_vm ()))
   \<and> snd (LoadFromBytes [] (zero_vm ())) = zero_vm ()
   \<and> \<not> fst (LoadFromBytes (replicate 61441 0) (zero_vm ()))
   \<and> snd (LoadFromBytes (replicate 61441 0) (zero_vm ())) = zero_vm ()
   \<and> fst (LoadFromBytes [0x73, 0, 0, 0] (zero_vm ()))
   \<and> Registers (snd (LoadFromBytes [0x73, 0, 0, 0] (zero_vm ()))) 2 = 65536"
  using C10_load_failure_changes_nothing [of "[]" "zero_vm ()"]
    C10_load_failure_changes_nothing [of "replicate 61441 0" "zero_vm ()"]
    C10_load_failure_changes_nothing [of "[0x73, 0, 0, 0]" "zero_vm ()"]
  by simp

end
